theory Spec2Isabelle
  imports Complex_Main "HOL-Library.Log_Nat" "HOL-Library.Sublist" "HOL-Library.Multiset"
    "HOL-Library.Option_ord"
begin

section \<open>Python values used by \<^verbatim>\<open>pg_comparative.py\<close>\<close>

subsection \<open>Strings\<close>

text \<open>
  A Python \<^verbatim>\<open>str\<close> is modelled as a HOL \<^typ>\<open>string\<close> holding the UTF-8 bytes that
  \<^verbatim>\<open>open(args.output, 'w', encoding='utf-8')\<close> writes. The source never takes the length
  of a string nor indexes one, so bytes and code points cannot be told apart by it.
  The pictographs of the source are given by their UTF-8 encodings.
\<close>

definition check_mark :: string where
  "check_mark = [CHR 0xE2, CHR 0x9C, CHR 0x85]"

definition cross_mark :: string where
  "cross_mark = [CHR 0xE2, CHR 0x9D, CHR 0x8C]"

definition warning_sign :: string where
  "warning_sign = [CHR 0xE2, CHR 0x9A, CHR 0xA0, CHR 0xEF, CHR 0xB8, CHR 0x8F]"

text \<open>\<^verbatim>\<open>sep.join(xs)\<close>\<close>

fun join :: "string \<Rightarrow> string list \<Rightarrow> string" where
  "join sep [] = []"
| "join sep [x] = x"
| "join sep (x # y # ys) = x @ sep @ join sep (y # ys)"

text \<open>\<^verbatim>\<open>str(n)\<close> for an integer: decimal digits, a minus sign for negatives.\<close>

definition digit_char :: "nat \<Rightarrow> char" where
  "digit_char d = ''0123456789'' ! d"

fun str_nat :: "nat \<Rightarrow> string" where
  "str_nat n = (if n < 10 then [digit_char n] else str_nat (n div 10) @ [digit_char (n mod 10)])"

declare str_nat.simps [simp del]

definition str_int :: "int \<Rightarrow> string" where
  "str_int i = (if i < 0 then ''-'' @ str_nat (nat (- i)) else str_nat (nat i))"

subsection \<open>\<^verbatim>\<open>decimal.Decimal\<close>\<close>

text \<open>
  psycopg2 hands a PostgreSQL \<^verbatim>\<open>numeric\<close> to Python as a \<^verbatim>\<open>Decimal\<close> whose exponent is
  minus the display scale of the column. \<open>Decimal c s\<close> is the number \<open>c / 10 ^ s\<close> printed
  with \<open>s\<close> digits after the point (\<open>Decimal 9500 2\<close> is \<^verbatim>\<open>Decimal('95.00')\<close>).
\<close>

datatype decimal = Decimal int nat

fun dec_value :: "decimal \<Rightarrow> rat" where
  "dec_value (Decimal c s) = of_int c / 10 ^ s"

text \<open>\<^verbatim>\<open>Decimal.__str__\<close>: plain notation while the adjusted exponent is above \<open>-7\<close>,
  scientific notation below.\<close>

fun str_decimal :: "decimal \<Rightarrow> string" where
  "str_decimal (Decimal c s) =
     (let ds = str_nat (nat \<bar>c\<bar>);
          sign = (if c < 0 then ''-'' else '''');
          leftdigits = int (length ds) - int s
      in if - 6 < leftdigits then
           (if leftdigits \<le> 0 then sign @ ''0.'' @ replicate (nat (- leftdigits)) (CHR ''0'') @ ds
            else if int (length ds) \<le> leftdigits then sign @ ds
            else sign @ take (nat leftdigits) ds @ ''.'' @ drop (nat leftdigits) ds)
         else sign @ take 1 ds @ (if 1 < length ds then ''.'' @ drop 1 ds else '''')
                @ ''E'' @ str_int (leftdigits - 1))"

subsection \<open>\<^verbatim>\<open>float\<close>: IEEE 754 binary64\<close>

text \<open>
  A finite float is the rational it denotes; the two infinities and NaN are separate values.
  The sign of zero is not kept: the program only prints \<open>abs\<close> of a difference or a
  difference it has found greater than 5, so a negative zero is never observed.
\<close>

datatype pyfloat = Finite rat | Infinity bool | NaN

text \<open>\<open>ilog2 q\<close> is \<open>\<lfloor>log\<^sub>2 \<bar>q\<bar>\<rfloor>\<close> for \<open>q \<noteq> 0\<close>, computed from the bit lengths of
  numerator and denominator.\<close>

definition ilog2 :: "rat \<Rightarrow> int" where
  "ilog2 q = (let (a, b) = quotient_of \<bar>q\<bar>;
                  e0 = int (floorlog 2 (nat a)) - int (floorlog 2 (nat b))
              in if 2 powi e0 \<le> \<bar>q\<bar> then e0 else e0 - 1)"

definition round_half_even :: "rat \<Rightarrow> int" where
  "round_half_even q =
     (let f = \<lfloor>q\<rfloor>; r = q - of_int f
      in if r < 1 / 2 then f else if 1 / 2 < r then f + 1 else if even f then f else f + 1)"

text \<open>Round to nearest, ties to even, on the grid of 53-bit significands (the subnormal
  grid below \<open>2\<^sup>-\<^sup>1\<^sup>0\<^sup>2\<^sup>2\<close>); a result of magnitude \<open>2\<^sup>1\<^sup>0\<^sup>2\<^sup>4\<close> or more overflows.\<close>

definition binary64_round :: "rat \<Rightarrow> rat" where
  "binary64_round q =
     (if q = 0 then 0
      else let e = max (ilog2 q) (- 1022); ulp = 2 powi (e - 52)
           in of_int (round_half_even (q / ulp)) * ulp)"

definition float_of_rat :: "rat \<Rightarrow> pyfloat" where
  "float_of_rat q =
     (let r = binary64_round q
      in if 2 ^ 1024 \<le> \<bar>r\<bar> then Infinity (q < 0) else Finite r)"

text \<open>\<^verbatim>\<open>x - y\<close> on floats. \<open>Infinity True\<close> is \<open>-inf\<close>.\<close>

fun float_sub :: "pyfloat \<Rightarrow> pyfloat \<Rightarrow> pyfloat" where
  "float_sub (Finite a) (Finite b) = float_of_rat (a - b)"
| "float_sub NaN _ = NaN"
| "float_sub _ NaN = NaN"
| "float_sub (Infinity s) (Finite b) = Infinity s"
| "float_sub (Finite a) (Infinity t) = Infinity (\<not> t)"
| "float_sub (Infinity s) (Infinity t) = (if s = t then NaN else Infinity s)"

text \<open>\<^verbatim>\<open>x < n\<close> and \<^verbatim>\<open>x > n\<close> for a float and an integer literal; every comparison with
  NaN is false.\<close>

fun float_lt_int :: "pyfloat \<Rightarrow> int \<Rightarrow> bool" where
  "float_lt_int (Finite a) n = (a < of_int n)"
| "float_lt_int (Infinity s) n = s"
| "float_lt_int NaN n = False"

fun float_gt_int :: "pyfloat \<Rightarrow> int \<Rightarrow> bool" where
  "float_gt_int (Finite a) n = (of_int n < a)"
| "float_gt_int (Infinity s) n = (\<not> s)"
| "float_gt_int NaN n = False"

fun float_abs :: "pyfloat \<Rightarrow> pyfloat" where
  "float_abs (Finite a) = Finite \<bar>a\<bar>"
| "float_abs (Infinity s) = Infinity False"
| "float_abs NaN = NaN"

text \<open>\<^verbatim>\<open>f"{x:.1f}"\<close>: the exact value of the float rounded to one decimal, ties to even.\<close>

fun format_1f :: "pyfloat \<Rightarrow> string" where
  "format_1f (Finite a) =
     (let n = nat (round_half_even (\<bar>a\<bar> * 10))
      in (if a < 0 then ''-'' else '''') @ str_nat (n div 10) @ ''.'' @ [digit_char (n mod 10)])"
| "format_1f (Infinity s) = (if s then ''-inf'' else ''inf'')"
| "format_1f NaN = ''nan''"

subsection \<open>Numbers read out of a result row\<close>

text \<open>
  The three columns that \<^verbatim>\<open>generate_recommendations\<close> converts with \<^verbatim>\<open>float()\<close> and
  \<^verbatim>\<open>int()\<close> are \<^verbatim>\<open>ROUND(...)\<close> expressions, of SQL type \<^verbatim>\<open>numeric\<close>: the Python value is a
  \<^verbatim>\<open>Decimal\<close>, \<^verbatim>\<open>None\<close> for SQL NULL, or the literal default \<^verbatim>\<open>0\<close> of \<^verbatim>\<open>.get\<close>.
\<close>

datatype pynum = NInt int | NDec decimal

fun num_value :: "pynum \<Rightarrow> rat" where
  "num_value (NInt i) = of_int i"
| "num_value (NDec d) = dec_value d"

text \<open>\<^verbatim>\<open>d.get(key, 0)\<close> on a row that is \<^verbatim>\<open>{}\<close> (\<open>None\<close>) or has the column.\<close>

definition get_num :: "('r \<Rightarrow> decimal option) \<Rightarrow> 'r option \<Rightarrow> pynum option" where
  "get_num col d = (case d of None \<Rightarrow> Some (NInt 0) | Some r \<Rightarrow> map_option NDec (col r))"

text \<open>\<^verbatim>\<open>x or 0\<close>: \<^verbatim>\<open>None\<close> and every zero are falsy.\<close>

definition or_zero :: "pynum option \<Rightarrow> pynum" where
  "or_zero x = (case x of None \<Rightarrow> NInt 0 | Some n \<Rightarrow> if num_value n = 0 then NInt 0 else n)"

text \<open>\<^verbatim>\<open>float(x)\<close> is the nearest binary64; \<^verbatim>\<open>int(x)\<close> truncates towards zero.\<close>

definition py_float :: "pynum \<Rightarrow> pyfloat" where
  "py_float n = float_of_rat (num_value n)"

definition py_int :: "pynum \<Rightarrow> int" where
  "py_int n = (let q = num_value n in if q < 0 then - \<lfloor>- q\<rfloor> else \<lfloor>q\<rfloor>)"

section \<open>Result rows\<close>

text \<open>
  \<^verbatim>\<open>execute_query\<close> returns \<^verbatim>\<open>RealDictCursor\<close> rows: dictionaries whose keys are exactly the
  output columns of the \<^verbatim>\<open>SELECT\<close> list that produced them, each holding the Python image of
  the column's SQL type or \<^verbatim>\<open>None\<close> for NULL. Such a row is a record of optional fields;
  the dictionary a \<^verbatim>\<open>get_*\<close> function returns is \<open>Some row\<close>, or \<open>None\<close> for \<^verbatim>\<open>{}\<close>.
  Columns of type \<^verbatim>\<open>text\<close> are strings, \<^verbatim>\<open>int\<close>/\<^verbatim>\<open>bigint\<close> are integers, \<^verbatim>\<open>numeric\<close> are
  decimals and \<^verbatim>\<open>float\<close> are floats.
\<close>

record version_row =
  v_version :: "string option"
  v_pg_version :: "string option"
  v_max_connections :: "int option"
  v_shared_buffers :: "string option"
  v_effective_cache_size :: "string option"
  v_work_mem :: "string option"
  v_maintenance_work_mem :: "string option"
  v_random_page_cost :: "pyfloat option"
  v_effective_io_concurrency :: "int option"
  v_synchronous_commit :: "string option"
  v_wal_level :: "string option"

record conn_row =
  c_current_connections :: "int option"
  c_max_connections :: "int option"
  c_active_connections :: "int option"
  c_idle_connections :: "int option"
  c_connection_usage_percent :: "decimal option"

record cache_row =
  heap_read :: "decimal option"
  heap_hit :: "decimal option"
  cache_hit_percent :: "decimal option"
  idx_read :: "decimal option"
  idx_hit :: "decimal option"
  idx_cache_hit_percent :: "decimal option"

record index_row =
  total_indexes :: "int option"
  unused_indexes :: "int option"
  unused_indexes_percent :: "decimal option"
  avg_index_scans :: "decimal option"

text \<open>\<^verbatim>\<open>d.get(key)\<close> for a text column, and its interpolation into an f-string.\<close>

definition get_str :: "('r \<Rightarrow> string option) \<Rightarrow> 'r option \<Rightarrow> string option" where
  "get_str col d = (case d of None \<Rightarrow> None | Some r \<Rightarrow> col r)"

definition str_opt :: "string option \<Rightarrow> string" where
  "str_opt x = (case x of None \<Rightarrow> ''None'' | Some s \<Rightarrow> s)"

section \<open>\<^verbatim>\<open>generate_recommendations\<close>\<close>

definition cache_diff :: "cache_row option \<Rightarrow> cache_row option \<Rightarrow> pyfloat" where
  "cache_diff cache1 cache2 =
     float_sub (py_float (or_zero (get_num cache_hit_percent cache2)))
               (py_float (or_zero (get_num cache_hit_percent cache1)))"

definition conn_diff :: "conn_row option \<Rightarrow> conn_row option \<Rightarrow> int" where
  "conn_diff c1 c2 =
     py_int (or_zero (get_num c_connection_usage_percent c2))
     - py_int (or_zero (get_num c_connection_usage_percent c1))"

definition unused_diff :: "index_row option \<Rightarrow> index_row option \<Rightarrow> pyfloat" where
  "unused_diff idx1 idx2 =
     float_sub (py_float (or_zero (get_num unused_indexes_percent idx2)))
               (py_float (or_zero (get_num unused_indexes_percent idx1)))"

definition cache_critical_title :: "pyfloat \<Rightarrow> string" where
  "cache_critical_title d =
     cross_mark @ '' **Cache Hit Ratio**: Server 2 has '' @ format_1f (float_abs d)
       @ ''% lower cache hit ratio. This is likely the PRIMARY performance issue.''"

definition cache_similar_line :: string where
  "cache_similar_line = check_mark @ '' **Cache Hit Ratio**: Similar between servers''"

definition conn_pool_title :: "int \<Rightarrow> string" where
  "conn_pool_title d =
     ''\<newline>'' @ cross_mark @ '' **Connection Pool**: Server 2 has '' @ str_int d
       @ ''% higher connection usage''"

definition index_usage_title :: "pyfloat \<Rightarrow> string" where
  "index_usage_title d =
     ''\<newline>'' @ cross_mark @ '' **Index Usage**: Server 2 has '' @ format_1f d
       @ ''% more unused indexes''"

definition memory_config_title :: string where
  "memory_config_title =
     ''\<newline>'' @ warning_sign @ '' **Memory Config**: Different `shared_buffers` settings''"

definition no_major_differences :: string where
  "no_major_differences =
     check_mark @ '' No major differences found. Issue may be application-level or related to data patterns.''"

text \<open>The list \<^verbatim>\<open>recommendations\<close> as it stands when the function reaches its
  \<^verbatim>\<open>return\<close>; each \<open>rs\<close> below is the list after one more \<^verbatim>\<open>if\<close> statement.\<close>

definition recommendation_lines ::
  "version_row option \<Rightarrow> version_row option \<Rightarrow> cache_row option \<Rightarrow> cache_row option \<Rightarrow>
   conn_row option \<Rightarrow> conn_row option \<Rightarrow> index_row option \<Rightarrow> index_row option \<Rightarrow> string list" where
  "recommendation_lines v1 v2 cache1 cache2 c1 c2 idx1 idx2 =
     (let rs0 = [];
          cd = cache_diff cache1 cache2;
          rs1 = (if float_lt_int cd (- 10)
                 then rs0 @ [cache_critical_title cd,
                        ''   - **Fix**: Check for missing indexes on Server 2'',
                        ''   - **Fix**: Increase `shared_buffers` and `effective_cache_size` on Server 2'',
                        ''   - **Fix**: Analyze queries with high sequential scans vs index scans'']
                 else rs0 @ [cache_similar_line]);
          nd = conn_diff c1 c2;
          rs2 = (if 20 < nd
                 then rs1 @ [conn_pool_title nd,
                        ''   - **Fix**: Identify connection leaks in application'',
                        ''   - **Fix**: Implement connection pooling (PgBouncer)'']
                 else rs1);
          ud = unused_diff idx1 idx2;
          rs3 = (if float_gt_int ud 5
                 then rs2 @ [index_usage_title ud,
                        ''   - **Fix**: Drop unused indexes to free disk space and improve writes'']
                 else rs2);
          rs4 = (if get_str v_shared_buffers v1 \<noteq> get_str v_shared_buffers v2
                 then rs3 @ [memory_config_title,
                        ''   - Server 1: '' @ str_opt (get_str v_shared_buffers v1),
                        ''   - Server 2: '' @ str_opt (get_str v_shared_buffers v2),
                        ''   - **Fix**: Align settings or upgrade Server 2 configuration'']
                 else rs3);
          rs5 = (if rs4 = [] then rs4 @ [no_major_differences] else rs4)
      in rs5)"

definition generate_recommendations ::
  "version_row option \<Rightarrow> version_row option \<Rightarrow> cache_row option \<Rightarrow> cache_row option \<Rightarrow>
   conn_row option \<Rightarrow> conn_row option \<Rightarrow> index_row option \<Rightarrow> index_row option \<Rightarrow> string" where
  "generate_recommendations v1 v2 cache1 cache2 c1 c2 idx1 idx2 =
     join ''\<newline>'' (recommendation_lines v1 v2 cache1 cache2 c1 c2 idx1 idx2)"

text \<open>The advisories are told apart by the heading each rule writes.\<close>

definition is_cache_advisory :: "string \<Rightarrow> bool" where
  "is_cache_advisory l = prefix (cross_mark @ '' **Cache Hit Ratio**'') l"


section \<open>The catalogue queries whose arithmetic the report depends on\<close>

subsection \<open>SQL values\<close>

text \<open>
  SQL NULL is \<open>None\<close>. An aggregate skips NULL inputs and is NULL when nothing is left;
  an arithmetic operator with a NULL operand is NULL. \<^verbatim>\<open>numeric\<close> values are the rationals
  they denote; \<^verbatim>\<open>ROUND\<close> on \<^verbatim>\<open>numeric\<close> rounds half away from zero and fixes the display
  scale of its result. A quotient of two \<^verbatim>\<open>numeric\<close> values is taken exact: PostgreSQL
  computes it to at least sixteen significant digits before \<^verbatim>\<open>ROUND\<close> sees it, which gives
  the same two decimals unless the exact quotient lies closer than that to a rounding
  boundary without being on it.
\<close>

definition sql_sum :: "int option list \<Rightarrow> int option" where
  "sql_sum vs = (case [v. Some v \<leftarrow> vs] of [] \<Rightarrow> None | x # xs \<Rightarrow> Some (sum_list (x # xs)))"

definition sql_add :: "int option \<Rightarrow> int option \<Rightarrow> int option" where
  "sql_add a b = (case (a, b) of (Some x, Some y) \<Rightarrow> Some (x + y) | _ \<Rightarrow> None)"

text \<open>\<^verbatim>\<open>NULLIF(x, 0)\<close>\<close>

definition sql_nullif_zero :: "int option \<Rightarrow> int option" where
  "sql_nullif_zero x = (case x of None \<Rightarrow> None | Some n \<Rightarrow> if n = 0 then None else Some n)"

definition round_half_away :: "rat \<Rightarrow> int" where
  "round_half_away q = (if 0 \<le> q then \<lfloor>q + 1 / 2\<rfloor> else - \<lfloor>- q + 1 / 2\<rfloor>)"

text \<open>\<^verbatim>\<open>ROUND(q, s)\<close>\<close>

definition sql_round :: "rat \<Rightarrow> nat \<Rightarrow> decimal" where
  "sql_round q s = Decimal (round_half_away (q * 10 ^ s)) s"

subsection \<open>\<^verbatim>\<open>get_cache_hit_ratio\<close>: the query\<close>

text \<open>The rows of \<^verbatim>\<open>pg_statio_user_tables\<close>, as far as the query reads them.\<close>

record statio_row =
  heap_blks_read :: "int option"
  heap_blks_hit :: "int option"
  idx_blks_read :: "int option"
  idx_blks_hit :: "int option"

text \<open>\<^verbatim>\<open>ROUND(100.0 * hit / NULLIF(hit + read, 0), 2)\<close>, for the two sums \<open>hit\<close> and \<open>read\<close>.\<close>

definition hit_percent :: "int option \<Rightarrow> int option \<Rightarrow> decimal option" where
  "hit_percent hit read =
     (case (hit, sql_nullif_zero (sql_add hit read)) of
        (Some h, Some d) \<Rightarrow> Some (sql_round (100 * of_int h / of_int d) 2)
      | _ \<Rightarrow> None)"

text \<open>The query has aggregates and no \<^verbatim>\<open>GROUP BY\<close>: it yields exactly one row.\<close>

definition cache_hit_ratio_query :: "statio_row list \<Rightarrow> cache_row" where
  "cache_hit_ratio_query tbls =
     (let hr = sql_sum (map heap_blks_read tbls);
          hh = sql_sum (map heap_blks_hit tbls);
          ir = sql_sum (map idx_blks_read tbls);
          ih = sql_sum (map idx_blks_hit tbls)
      in \<lparr>heap_read = map_option (\<lambda>n. Decimal n 0) hr,
          heap_hit = map_option (\<lambda>n. Decimal n 0) hh,
          cache_hit_percent = hit_percent hh hr,
          idx_read = map_option (\<lambda>n. Decimal n 0) ir,
          idx_hit = map_option (\<lambda>n. Decimal n 0) ih,
          idx_cache_hit_percent = hit_percent ih ir\<rparr>)"

subsection \<open>\<^verbatim>\<open>get_query_performance_issues\<close>: the query\<close>

text \<open>
  The rows of \<^verbatim>\<open>pg_stat_user_tables\<close>, as far as the query reads them; \<open>total_size_pretty\<close>
  stands for \<^verbatim>\<open>pg_size_pretty(pg_total_relation_size(...))\<close> of the table. The scan
  counters are \<^verbatim>\<open>bigint\<close>; \<^verbatim>\<open>idx_scan\<close> is NULL for a table without indexes.
\<close>

record stat_table_row =
  schemaname :: string
  relname :: string
  seq_scan :: "int option"
  idx_scan :: "int option"
  total_size_pretty :: string

record perf_issue_row =
  p_schemaname :: string
  p_table_name :: string
  p_seq_vs_idx_diff :: "int option"
  p_seq_scan :: "int option"
  p_idx_scan :: "int option"
  p_issue_type :: string
  p_table_size :: string

text \<open>Three-valued conditions: \<open>None\<close> is unknown. \<^verbatim>\<open>WHERE\<close> and \<^verbatim>\<open>CASE WHEN\<close> take a branch
  only on \<open>Some True\<close>.\<close>

definition sql_and :: "bool option \<Rightarrow> bool option \<Rightarrow> bool option" where
  "sql_and a b =
     (if a = Some False \<or> b = Some False then Some False
      else if a = Some True \<and> b = Some True then Some True else None)"

definition sql_or :: "bool option \<Rightarrow> bool option \<Rightarrow> bool option" where
  "sql_or a b =
     (if a = Some True \<or> b = Some True then Some True
      else if a = Some False \<and> b = Some False then Some False else None)"

definition sql_eq_const :: "int option \<Rightarrow> int \<Rightarrow> bool option" where
  "sql_eq_const a k = map_option (\<lambda>x. x = k) a"

definition sql_gt :: "int option \<Rightarrow> int option \<Rightarrow> bool option" where
  "sql_gt a b = (case (a, b) of (Some x, Some y) \<Rightarrow> Some (y < x) | _ \<Rightarrow> None)"

text \<open>\<^verbatim>\<open>idx_scan = 0 AND seq_scan > 100\<close>\<close>

definition missing_index_cond :: "stat_table_row \<Rightarrow> bool option" where
  "missing_index_cond r = sql_and (sql_eq_const (idx_scan r) 0) (sql_gt (seq_scan r) (Some 100))"

text \<open>\<^verbatim>\<open>seq_scan > idx_scan * 10\<close>\<close>

definition full_scans_cond :: "stat_table_row \<Rightarrow> bool option" where
  "full_scans_cond r = sql_gt (seq_scan r) (map_option (\<lambda>i. i * 10) (idx_scan r))"

definition where_cond :: "stat_table_row \<Rightarrow> bool" where
  "where_cond r = (sql_or (missing_index_cond r) (full_scans_cond r) = Some True)"

text \<open>The \<^verbatim>\<open>CASE\<close> of the select list: the first \<^verbatim>\<open>WHEN\<close> that is true decides.\<close>

definition issue_type :: "stat_table_row \<Rightarrow> string" where
  "issue_type r =
     (if missing_index_cond r = Some True then ''MISSING_INDEX''
      else if full_scans_cond r = Some True then ''FULL_TABLE_SCANS''
      else ''OK'')"

definition select_perf_issue :: "stat_table_row \<Rightarrow> perf_issue_row" where
  "select_perf_issue r =
     \<lparr>p_schemaname = schemaname r,
      p_table_name = relname r,
      p_seq_vs_idx_diff = (case (seq_scan r, idx_scan r) of (Some s, Some i) \<Rightarrow> Some (s - i) | _ \<Rightarrow> None),
      p_seq_scan = seq_scan r,
      p_idx_scan = idx_scan r,
      p_issue_type = issue_type r,
      p_table_size = total_size_pretty r\<rparr>"

text \<open>
  \<^verbatim>\<open>ORDER BY seq_scan DESC\<close> puts NULLs first and leaves the order of rows with equal
  keys open; the model sorts stably, which is one of the orders PostgreSQL may produce. The
  key is the negated counter, in the order of \<^typ>\<open>int option\<close> that has \<open>None\<close> at the
  bottom.
\<close>

definition desc_key :: "int option \<Rightarrow> int option" where
  "desc_key v = map_option uminus v"

definition order_by_seq_scan_desc :: "stat_table_row list \<Rightarrow> stat_table_row list" where
  "order_by_seq_scan_desc rs = sort_key (\<lambda>r. desc_key (seq_scan r)) rs"

text \<open>
  The counters are \<^verbatim>\<open>bigint\<close>, and so is the product \<^verbatim>\<open>idx_scan * 10\<close>: where it leaves the
  range of 64 bits PostgreSQL raises \<^verbatim>\<open>bigint out of range\<close> and the query fails. The
  product is evaluated for every row whose first condition is not true, which includes
  every row with an \<^verbatim>\<open>idx_scan\<close> other than 0.
\<close>

definition int8_range :: "int \<Rightarrow> bool" where
  "int8_range n = (- (2 ^ 63) \<le> n \<and> n < 2 ^ 63)"

definition product_overflows :: "stat_table_row \<Rightarrow> bool" where
  "product_overflows r = (case idx_scan r of None \<Rightarrow> False | Some i \<Rightarrow> \<not> int8_range (i * 10))"

text \<open>\<^verbatim>\<open>WHERE ... ORDER BY seq_scan DESC LIMIT 15\<close>, then the select list: what the query
  does on the given rows of \<^verbatim>\<open>pg_stat_user_tables\<close>.\<close>

definition performance_issues_query :: "stat_table_row list \<Rightarrow> string + perf_issue_row list" where
  "performance_issues_query tbls =
     (if list_ex product_overflows tbls then Inl ''bigint out of range''
      else Inr (map select_perf_issue (take 15 (order_by_seq_scan_desc (filter where_cond tbls)))))"

section \<open>Collecting: \<^verbatim>\<open>execute_query\<close> and the \<^verbatim>\<open>get_*\<close> functions\<close>

record size_row =
  database_size :: "string option"
  database_size_bytes :: "int option"

record table_stats_row =
  total_tables :: "int option"
  avg_rows_per_table :: "decimal option"
  max_rows_in_table :: "int option"
  avg_dead_rows :: "decimal option"
  total_dead_rows :: "decimal option"

record lock_row =
  blocked_locks :: "int option"
  active_locks :: "int option"
  waiting_queries :: "int option"

record memory_row =
  m_shared_buffers :: "string option"
  m_effective_cache_size :: "string option"
  m_work_mem :: "string option"
  m_maintenance_work_mem :: "string option"
  m_shared_buffers_level :: "string option"

text \<open>
  The Python values that reach a table cell. A timestamp column is a \<^verbatim>\<open>datetime\<close>, kept
  opaque. The rows of the five list-valued categories are only counted, sliced and handed to
  \<^verbatim>\<open>tabulate\<close>, so they stay dictionaries: key and value in column order.
\<close>

datatype pyval = PNone | PInt int | PDec decimal | PFloat pyfloat | PStr string | PDatetime string

type_synonym dict_row = "(string \<times> pyval) list"

text \<open>
  What \<^verbatim>\<open>cur.execute(query); cur.fetchall()\<close> does for one query on one connection: it
  raises (\<open>Inl\<close> the message of the exception) or returns rows. A connection is modelled by
  what it answers to each of the thirteen queries of the program, which runs each of them
  once per connection.
\<close>

type_synonym 'a query_outcome = "string + 'a list"

record connection =
  version_query :: "version_row query_outcome"
  connection_query :: "conn_row query_outcome"
  cache_query :: "cache_row query_outcome"
  size_query :: "size_row query_outcome"
  table_query :: "table_stats_row query_outcome"
  index_query :: "index_row query_outcome"
  active_query :: "dict_row query_outcome"
  longest_query :: "dict_row query_outcome"
  bloat_query :: "dict_row query_outcome"
  autovacuum_query :: "dict_row query_outcome"
  performance_query :: "dict_row query_outcome"
  lock_query :: "lock_row query_outcome"
  memory_query :: "memory_row query_outcome"

text \<open>\<^verbatim>\<open>execute_query\<close> returns the rows together with the lines it sends to
  \<^verbatim>\<open>logger.error\<close>.\<close>

definition execute_query :: "'a query_outcome \<Rightarrow> 'a list \<times> string list" where
  "execute_query outcome =
     (case outcome of
        Inr rows \<Rightarrow> (rows, [])
      | Inl e \<Rightarrow> ([], [''Query execution failed: '' @ e]))"

text \<open>\<^verbatim>\<open>result[0] if result else {}\<close>\<close>

definition first_or_empty :: "'a list \<times> string list \<Rightarrow> 'a option \<times> string list" where
  "first_or_empty res = (case fst res of [] \<Rightarrow> (None, snd res) | r # _ \<Rightarrow> (Some r, snd res))"

definition get_version_info :: "connection \<Rightarrow> version_row option \<times> string list" where
  "get_version_info conn = first_or_empty (execute_query (version_query conn))"

definition get_connection_stats :: "connection \<Rightarrow> conn_row option \<times> string list" where
  "get_connection_stats conn = first_or_empty (execute_query (connection_query conn))"

definition get_cache_hit_ratio :: "connection \<Rightarrow> cache_row option \<times> string list" where
  "get_cache_hit_ratio conn = first_or_empty (execute_query (cache_query conn))"

definition get_database_size :: "connection \<Rightarrow> size_row option \<times> string list" where
  "get_database_size conn = first_or_empty (execute_query (size_query conn))"

definition get_table_count_and_stats :: "connection \<Rightarrow> table_stats_row option \<times> string list" where
  "get_table_count_and_stats conn = first_or_empty (execute_query (table_query conn))"

definition get_index_stats :: "connection \<Rightarrow> index_row option \<times> string list" where
  "get_index_stats conn = first_or_empty (execute_query (index_query conn))"

definition get_active_queries :: "connection \<Rightarrow> dict_row list \<times> string list" where
  "get_active_queries conn = execute_query (active_query conn)"

definition get_longest_queries :: "connection \<Rightarrow> dict_row list \<times> string list" where
  "get_longest_queries conn = execute_query (longest_query conn)"

definition get_table_bloat :: "connection \<Rightarrow> dict_row list \<times> string list" where
  "get_table_bloat conn = execute_query (bloat_query conn)"

definition get_autovacuum_stats :: "connection \<Rightarrow> dict_row list \<times> string list" where
  "get_autovacuum_stats conn = execute_query (autovacuum_query conn)"

definition get_query_performance_issues :: "connection \<Rightarrow> dict_row list \<times> string list" where
  "get_query_performance_issues conn = execute_query (performance_query conn)"

definition get_lock_stats :: "connection \<Rightarrow> lock_row option \<times> string list" where
  "get_lock_stats conn = first_or_empty (execute_query (lock_query conn))"

definition get_memory_stats :: "connection \<Rightarrow> memory_row option \<times> string list" where
  "get_memory_stats conn = first_or_empty (execute_query (memory_query conn))"

text \<open>The rows that \<^verbatim>\<open>get_query_performance_issues\<close> returns on a database with the
  given tables.\<close>

definition query_performance_issues :: "stat_table_row list \<Rightarrow> perf_issue_row list" where
  "query_performance_issues tbls = fst (execute_query (performance_issues_query tbls))"

text \<open>The row of \<^verbatim>\<open>get_query_performance_issues\<close> as the dictionary the cursor builds.\<close>

definition opt_int :: "int option \<Rightarrow> pyval" where
  "opt_int v = (case v of None \<Rightarrow> PNone | Some i \<Rightarrow> PInt i)"

definition perf_issue_dict :: "perf_issue_row \<Rightarrow> dict_row" where
  "perf_issue_dict r =
     [(''schemaname'', PStr (p_schemaname r)),
      (''table_name'', PStr (p_table_name r)),
      (''seq_vs_idx_diff'', (case p_seq_vs_idx_diff r of None \<Rightarrow> PNone | Some d \<Rightarrow> PDec (Decimal d 0))),
      (''seq_scan'', opt_int (p_seq_scan r)),
      (''idx_scan'', opt_int (p_idx_scan r)),
      (''issue_type'', PStr (p_issue_type r)),
      (''table_size'', PStr (p_table_size r))]"

section \<open>Rendering: \<^verbatim>\<open>generate_markdown_report\<close>\<close>

subsection \<open>Cells\<close>

text \<open>\<^verbatim>\<open>d.get(key, 'N/A')\<close>: the default only when the key is absent, that is when the
  dictionary is \<^verbatim>\<open>{}\<close>; a NULL column is present and holds \<^verbatim>\<open>None\<close>.\<close>

definition get_cell :: "('r \<Rightarrow> 'a option) \<Rightarrow> ('a \<Rightarrow> pyval) \<Rightarrow> 'r option \<Rightarrow> pyval" where
  "get_cell col wrap d =
     (case d of
        None \<Rightarrow> PStr ''N/A''
      | Some r \<Rightarrow> (case col r of None \<Rightarrow> PNone | Some x \<Rightarrow> wrap x))"

text \<open>\<^verbatim>\<open>f"{d.get(key, 'N/A')}%"\<close> for a \<^verbatim>\<open>numeric\<close> column.\<close>

definition percent_cell :: "('r \<Rightarrow> decimal option) \<Rightarrow> 'r option \<Rightarrow> pyval" where
  "percent_cell col d =
     PStr ((case d of
              None \<Rightarrow> ''N/A''
            | Some r \<Rightarrow> (case col r of None \<Rightarrow> ''None'' | Some x \<Rightarrow> str_decimal x)) @ ''%'')"

subsection \<open>The pieces of the report\<close>

text \<open>
  The Python list \<^verbatim>\<open>report\<close> holds strings; those that \<^verbatim>\<open>tabulate\<close> returns are kept as
  the call that makes them, since \<^verbatim>\<open>tabulate\<close> is a library outside the program.
  \<open>ListTable rows headers\<close> is \<^verbatim>\<open>tabulate(rows, headers=headers, tablefmt="markdown")\<close>;
  \<open>DictTable rows widths\<close> is
  \<^verbatim>\<open>tabulate(rows, headers="keys", tablefmt="markdown", maxcolwidths=widths)\<close>.
\<close>

datatype tabulate_call =
    ListTable "pyval list list" "string list"
  | DictTable "dict_row list" "nat option list"

datatype report_item = Line string | Table tabulate_call

definition metric_headers :: "string list" where
  "metric_headers = [''Metric'', ''Server 1'', ''Server 2'']"

definition parameter_headers :: "string list" where
  "parameter_headers = [''Parameter'', ''Server 1'', ''Server 2'']"

definition version_table :: "version_row option \<Rightarrow> version_row option \<Rightarrow> pyval list list" where
  "version_table v1 v2 =
     [[PStr ''PostgreSQL Version'', get_cell v_pg_version PStr v1, get_cell v_pg_version PStr v2],
      [PStr ''Max Connections'', get_cell v_max_connections PInt v1, get_cell v_max_connections PInt v2],
      [PStr ''Shared Buffers'', get_cell v_shared_buffers PStr v1, get_cell v_shared_buffers PStr v2],
      [PStr ''Effective Cache Size'', get_cell v_effective_cache_size PStr v1,
         get_cell v_effective_cache_size PStr v2],
      [PStr ''Work Memory'', get_cell v_work_mem PStr v1, get_cell v_work_mem PStr v2],
      [PStr ''Random Page Cost'', get_cell v_random_page_cost PFloat v1,
         get_cell v_random_page_cost PFloat v2],
      [PStr ''Effective IO Concurrency'', get_cell v_effective_io_concurrency PInt v1,
         get_cell v_effective_io_concurrency PInt v2],
      [PStr ''Synchronous Commit'', get_cell v_synchronous_commit PStr v1,
         get_cell v_synchronous_commit PStr v2]]"

definition conn_table :: "conn_row option \<Rightarrow> conn_row option \<Rightarrow> pyval list list" where
  "conn_table c1 c2 =
     [[PStr ''Current Connections'', get_cell c_current_connections PInt c1,
         get_cell c_current_connections PInt c2],
      [PStr ''Max Connections'', get_cell c_max_connections PInt c1, get_cell c_max_connections PInt c2],
      [PStr ''Active Connections'', get_cell c_active_connections PInt c1,
         get_cell c_active_connections PInt c2],
      [PStr ''Idle Connections'', get_cell c_idle_connections PInt c1,
         get_cell c_idle_connections PInt c2],
      [PStr ''Connection Usage %'', percent_cell c_connection_usage_percent c1,
         percent_cell c_connection_usage_percent c2]]"

definition cache_table :: "cache_row option \<Rightarrow> cache_row option \<Rightarrow> pyval list list" where
  "cache_table cache1 cache2 =
     [[PStr ''Heap Cache Hit %'', percent_cell cache_hit_percent cache1,
         percent_cell cache_hit_percent cache2],
      [PStr ''Index Cache Hit %'', percent_cell idx_cache_hit_percent cache1,
         percent_cell idx_cache_hit_percent cache2],
      [PStr ''Heap Blocks Read'', get_cell heap_read PDec cache1, get_cell heap_read PDec cache2],
      [PStr ''Heap Blocks Hit'', get_cell heap_hit PDec cache1, get_cell heap_hit PDec cache2]]"

definition size_table :: "size_row option \<Rightarrow> size_row option \<Rightarrow> pyval list list" where
  "size_table db1 db2 =
     [[PStr ''Database Size'', get_cell database_size PStr db1, get_cell database_size PStr db2]]"

definition table_stats :: "table_stats_row option \<Rightarrow> table_stats_row option \<Rightarrow> pyval list list" where
  "table_stats tbl1 tbl2 =
     [[PStr ''Total Tables'', get_cell total_tables PInt tbl1, get_cell total_tables PInt tbl2],
      [PStr ''Avg Rows per Table'', get_cell avg_rows_per_table PDec tbl1,
         get_cell avg_rows_per_table PDec tbl2],
      [PStr ''Max Rows in Table'', get_cell max_rows_in_table PInt tbl1,
         get_cell max_rows_in_table PInt tbl2],
      [PStr ''Total Dead Rows'', get_cell total_dead_rows PDec tbl1, get_cell total_dead_rows PDec tbl2]]"

definition index_stats :: "index_row option \<Rightarrow> index_row option \<Rightarrow> pyval list list" where
  "index_stats idx1 idx2 =
     [[PStr ''Total Indexes'', get_cell total_indexes PInt idx1, get_cell total_indexes PInt idx2],
      [PStr ''Unused Indexes'', get_cell unused_indexes PInt idx1, get_cell unused_indexes PInt idx2],
      [PStr ''Unused Indexes %'', percent_cell unused_indexes_percent idx1,
         percent_cell unused_indexes_percent idx2],
      [PStr ''Avg Index Scans'', get_cell avg_index_scans PDec idx1, get_cell avg_index_scans PDec idx2]]"

definition lock_stats :: "lock_row option \<Rightarrow> lock_row option \<Rightarrow> pyval list list" where
  "lock_stats lock1 lock2 =
     [[PStr ''Blocked Locks'', get_cell blocked_locks PInt lock1, get_cell blocked_locks PInt lock2],
      [PStr ''Active Locks'', get_cell active_locks PInt lock1, get_cell active_locks PInt lock2],
      [PStr ''Waiting Queries'', get_cell waiting_queries PInt lock1, get_cell waiting_queries PInt lock2]]"

definition mem_table :: "memory_row option \<Rightarrow> memory_row option \<Rightarrow> pyval list list" where
  "mem_table mem1 mem2 =
     [[PStr ''Shared Buffers'', get_cell m_shared_buffers PStr mem1, get_cell m_shared_buffers PStr mem2],
      [PStr ''Effective Cache Size'', get_cell m_effective_cache_size PStr mem1,
         get_cell m_effective_cache_size PStr mem2],
      [PStr ''Work Memory'', get_cell m_work_mem PStr mem1, get_cell m_work_mem PStr mem2],
      [PStr ''Maintenance Work Memory'', get_cell m_maintenance_work_mem PStr mem1,
         get_cell m_maintenance_work_mem PStr mem2]]"

subsection \<open>The section headings\<close>

definition server_heading :: string where
  "server_heading = ''## '' @ [CHR 0xF0, CHR 0x9F, CHR 0x93, CHR 0x8A] @ '' Server Information\<newline>''"

definition version_heading :: string where
  "version_heading =
     ''## '' @ [CHR 0xF0, CHR 0x9F, CHR 0x94, CHR 0xA7] @ '' PostgreSQL Version & Configuration\<newline>''"

definition connection_heading :: string where
  "connection_heading =
     ''## '' @ [CHR 0xF0, CHR 0x9F, CHR 0x94, CHR 0x8C] @ '' Connection Statistics\<newline>''"

definition cache_heading :: string where
  "cache_heading =
     ''## '' @ [CHR 0xF0, CHR 0x9F, CHR 0x92, CHR 0xBE] @ '' Cache Hit Ratio (CRITICAL)\<newline>''"

definition size_heading :: string where
  "size_heading = ''## '' @ [CHR 0xF0, CHR 0x9F, CHR 0x93, CHR 0xA6] @ '' Database Size\<newline>''"

definition table_heading :: string where
  "table_heading = ''## '' @ [CHR 0xF0, CHR 0x9F, CHR 0x93, CHR 0x8B] @ '' Table Statistics\<newline>''"

definition index_heading :: string where
  "index_heading = ''## '' @ [CHR 0xF0, CHR 0x9F, CHR 0x93, CHR 0x91] @ '' Index Statistics\<newline>''"

definition lock_heading :: string where
  "lock_heading = ''## '' @ [CHR 0xF0, CHR 0x9F, CHR 0x94, CHR 0x92] @ '' Lock Statistics\<newline>''"

definition active_heading :: string where
  "active_heading = ''## '' @ [CHR 0xE2, CHR 0x9A, CHR 0xA1] @ '' Active Queries Now\<newline>''"

definition longest_heading :: string where
  "longest_heading =
     ''## '' @ [CHR 0xE2, CHR 0x8F, CHR 0xB1, CHR 0xEF, CHR 0xB8, CHR 0x8F] @ '' Long Running Queries\<newline>''"

definition bloat_heading :: string where
  "bloat_heading =
     ''## '' @ [CHR 0xF0, CHR 0x9F, CHR 0x97, CHR 0x91, CHR 0xEF, CHR 0xB8, CHR 0x8F]
       @ '' Table Bloat (Dead Rows)\<newline>''"

definition performance_heading :: string where
  "performance_heading = ''## '' @ warning_sign @ '' Query Performance Issues\<newline>''"

definition autovacuum_heading :: string where
  "autovacuum_heading =
     ''## '' @ [CHR 0xF0, CHR 0x9F, CHR 0xA7, CHR 0xB9] @ '' Autovacuum Statistics\<newline>''"

definition memory_heading :: string where
  "memory_heading =
     ''## '' @ [CHR 0xF0, CHR 0x9F, CHR 0x92, CHR 0xBE] @ '' Memory Configuration\<newline>''"

definition recommendations_heading :: string where
  "recommendations_heading =
     ''## '' @ [CHR 0xF0, CHR 0x9F, CHR 0x8E, CHR 0xAF] @ '' Analysis & Recommendations\<newline>\<newline>''"

subsection \<open>The sections\<close>

record server_config =
  name :: string
  host :: string
  database :: string
  user :: string
  password :: string
  port :: int

definition title_items :: "string \<Rightarrow> report_item list" where
  "title_items now =
     [Line ''# PostgreSQL Comparative Diagnostic Report'',
      Line (''\<newline>**Generated:** '' @ now @ ''\<newline>'')]"

definition server_section :: "server_config \<Rightarrow> server_config \<Rightarrow> report_item list" where
  "server_section server1 server2 =
     [Line server_heading,
      Line (''- **Server 1 (Fast):** '' @ host server1 @ '':'' @ str_int (port server1) @ ''/''
              @ database server1),
      Line (''- **Server 2 (Slow):** '' @ host server2 @ '':'' @ str_int (port server2) @ ''/''
              @ database server2 @ ''\<newline>'')]"

definition version_section :: "version_row option \<Rightarrow> version_row option \<Rightarrow> report_item list" where
  "version_section v1 v2 =
     [Line version_heading, Table (ListTable (version_table v1 v2) parameter_headers), Line ''\<newline>'']"

definition connection_section :: "conn_row option \<Rightarrow> conn_row option \<Rightarrow> report_item list" where
  "connection_section c1 c2 =
     [Line connection_heading, Table (ListTable (conn_table c1 c2) metric_headers), Line ''\<newline>'']"

definition cache_section :: "cache_row option \<Rightarrow> cache_row option \<Rightarrow> report_item list" where
  "cache_section cache1 cache2 =
     [Line cache_heading, Table (ListTable (cache_table cache1 cache2) metric_headers),
      Line (''\<newline>> '' @ warning_sign @ '' **Cache hit ratio should be >95%**. Lower values indicate missing indexes or insufficient memory.\<newline>'')]"

definition size_section :: "size_row option \<Rightarrow> size_row option \<Rightarrow> report_item list" where
  "size_section db1 db2 =
     [Line size_heading, Table (ListTable (size_table db1 db2) metric_headers), Line ''\<newline>'']"

definition table_section :: "table_stats_row option \<Rightarrow> table_stats_row option \<Rightarrow> report_item list" where
  "table_section tbl1 tbl2 =
     [Line table_heading, Table (ListTable (table_stats tbl1 tbl2) metric_headers), Line ''\<newline>'']"

definition index_section :: "index_row option \<Rightarrow> index_row option \<Rightarrow> report_item list" where
  "index_section idx1 idx2 =
     [Line index_heading, Table (ListTable (index_stats idx1 idx2) metric_headers), Line ''\<newline>'']"

definition lock_section :: "lock_row option \<Rightarrow> lock_row option \<Rightarrow> report_item list" where
  "lock_section lock1 lock2 =
     [Line lock_heading, Table (ListTable (lock_stats lock1 lock2) metric_headers), Line ''\<newline>'']"

definition active_section :: "dict_row list \<Rightarrow> dict_row list \<Rightarrow> report_item list" where
  "active_section act1 act2 =
     [Line active_heading]
     @ (if act1 \<noteq> []
        then [Line (''\<newline>### Server 1 ('' @ str_nat (length act1) @ '' active)\<newline>''),
              Table (DictTable act1 [None, None, None, Some 10, Some 60])]
        else [Line ''\<newline>### Server 1: No active queries\<newline>''])
     @ (if act2 \<noteq> []
        then [Line (''\<newline>### Server 2 ('' @ str_nat (length act2) @ '' active)\<newline>''),
              Table (DictTable act2 [None, None, None, Some 10, Some 60])]
        else [Line ''\<newline>### Server 2: No active queries\<newline>''])
     @ [Line ''\<newline>'']"

definition longest_section :: "dict_row list \<Rightarrow> dict_row list \<Rightarrow> report_item list" where
  "longest_section long1 long2 =
     [Line longest_heading]
     @ (if long1 \<noteq> []
        then [Line (''\<newline>### Server 1 ('' @ str_nat (length long1) @ '' queries)\<newline>''),
              Table (DictTable long1 [None, None, Some 10, Some 60])]
        else [Line ''\<newline>### Server 1: No long running queries\<newline>''])
     @ (if long2 \<noteq> []
        then [Line (''\<newline>### Server 2 ('' @ str_nat (length long2) @ '' queries)\<newline>''),
              Table (DictTable long2 [None, None, Some 10, Some 60])]
        else [Line ''\<newline>### Server 2: No long running queries\<newline>''])
     @ [Line ''\<newline>'']"

definition bloat_section :: "dict_row list \<Rightarrow> dict_row list \<Rightarrow> report_item list" where
  "bloat_section bloat1 bloat2 =
     [Line bloat_heading]
     @ (if bloat1 \<noteq> []
        then [Line (''\<newline>### Server 1 (Tables with >1000 dead rows: '' @ str_nat (length bloat1)
                      @ '')\<newline>''),
              Table (DictTable bloat1 [None, Some 30, None, None, None, None, None])]
        else [Line ''\<newline>### Server 1: No significant table bloat\<newline>''])
     @ (if bloat2 \<noteq> []
        then [Line (''\<newline>### Server 2 (Tables with >1000 dead rows: '' @ str_nat (length bloat2)
                      @ '')\<newline>''),
              Table (DictTable bloat2 [None, Some 30, None, None, None, None, None])]
        else [Line ''\<newline>### Server 2: No significant table bloat\<newline>''])
     @ [Line ''\<newline>'']"

definition performance_section :: "dict_row list \<Rightarrow> dict_row list \<Rightarrow> report_item list" where
  "performance_section perf1 perf2 =
     [Line performance_heading]
     @ (if perf1 \<noteq> []
        then [Line (''\<newline>### Server 1 (Issues found: '' @ str_nat (length perf1) @ '')\<newline>''),
              Table (DictTable perf1 [None, Some 30, None, None, None, Some 20, None])]
        else [Line ''\<newline>### Server 1: No query performance issues detected\<newline>''])
     @ (if perf2 \<noteq> []
        then [Line (''\<newline>### Server 2 (Issues found: '' @ str_nat (length perf2) @ '')\<newline>''),
              Table (DictTable perf2 [None, Some 30, None, None, None, Some 20, None])]
        else [Line ''\<newline>### Server 2: No query performance issues detected\<newline>''])
     @ [Line ''\<newline>'']"

text \<open>The autovacuum section has no \<^verbatim>\<open>else\<close> branches; \<^verbatim>\<open>vac1[:5]\<close> is \<open>take 5 vac1\<close>.\<close>

definition autovacuum_section :: "dict_row list \<Rightarrow> dict_row list \<Rightarrow> report_item list" where
  "autovacuum_section vac1 vac2 =
     [Line autovacuum_heading]
     @ (if vac1 \<noteq> []
        then [Line ''\<newline>### Server 1\<newline>'',
              Table (DictTable (take 5 vac1)
                [None, Some 30, None, None, None, None, None, None, None, None, None])]
        else [])
     @ (if vac2 \<noteq> []
        then [Line ''\<newline>### Server 2\<newline>'',
              Table (DictTable (take 5 vac2)
                [None, Some 30, None, None, None, None, None, None, None, None, None])]
        else [])
     @ [Line ''\<newline>'']"

definition memory_section :: "memory_row option \<Rightarrow> memory_row option \<Rightarrow> report_item list" where
  "memory_section mem1 mem2 =
     [Line memory_heading, Table (ListTable (mem_table mem1 mem2) parameter_headers), Line ''\<newline>'']"

definition recommendations_section ::
  "version_row option \<Rightarrow> version_row option \<Rightarrow> cache_row option \<Rightarrow> cache_row option \<Rightarrow>
   conn_row option \<Rightarrow> conn_row option \<Rightarrow> index_row option \<Rightarrow> index_row option \<Rightarrow> report_item list" where
  "recommendations_section v1 v2 cache1 cache2 c1 c2 idx1 idx2 =
     [Line recommendations_heading,
      Line (generate_recommendations v1 v2 cache1 cache2 c1 c2 idx1 idx2),
      Line ''\<newline>'']"

subsection \<open>The whole report\<close>

text \<open>
  \<^verbatim>\<open>generate_markdown_report\<close> appends to \<^verbatim>\<open>report\<close> section by section, running the two
  queries of a section just before it renders them. Nothing that is appended depends on a
  later query, and a failed query only adds a log line, so the list is the concatenation of
  the sections and the log is the concatenation of the log lines in the order of the calls.
\<close>

definition report_items ::
  "string \<Rightarrow> server_config \<Rightarrow> server_config \<Rightarrow> connection \<Rightarrow> connection \<Rightarrow> report_item list" where
  "report_items now server1 server2 conn1 conn2 =
     (let v1 = fst (get_version_info conn1); v2 = fst (get_version_info conn2);
          c1 = fst (get_connection_stats conn1); c2 = fst (get_connection_stats conn2);
          cache1 = fst (get_cache_hit_ratio conn1); cache2 = fst (get_cache_hit_ratio conn2);
          db1 = fst (get_database_size conn1); db2 = fst (get_database_size conn2);
          tbl1 = fst (get_table_count_and_stats conn1); tbl2 = fst (get_table_count_and_stats conn2);
          idx1 = fst (get_index_stats conn1); idx2 = fst (get_index_stats conn2);
          lock1 = fst (get_lock_stats conn1); lock2 = fst (get_lock_stats conn2);
          act1 = fst (get_active_queries conn1); act2 = fst (get_active_queries conn2);
          long1 = fst (get_longest_queries conn1); long2 = fst (get_longest_queries conn2);
          bloat1 = fst (get_table_bloat conn1); bloat2 = fst (get_table_bloat conn2);
          perf1 = fst (get_query_performance_issues conn1);
          perf2 = fst (get_query_performance_issues conn2);
          vac1 = fst (get_autovacuum_stats conn1); vac2 = fst (get_autovacuum_stats conn2);
          mem1 = fst (get_memory_stats conn1); mem2 = fst (get_memory_stats conn2)
      in title_items now
         @ server_section server1 server2
         @ version_section v1 v2
         @ connection_section c1 c2
         @ cache_section cache1 cache2
         @ size_section db1 db2
         @ table_section tbl1 tbl2
         @ index_section idx1 idx2
         @ lock_section lock1 lock2
         @ active_section act1 act2
         @ longest_section long1 long2
         @ bloat_section bloat1 bloat2
         @ performance_section perf1 perf2
         @ autovacuum_section vac1 vac2
         @ memory_section mem1 mem2
         @ recommendations_section v1 v2 cache1 cache2 c1 c2 idx1 idx2)"

definition report_log :: "connection \<Rightarrow> connection \<Rightarrow> string list" where
  "report_log conn1 conn2 =
     snd (get_version_info conn1) @ snd (get_version_info conn2)
     @ snd (get_connection_stats conn1) @ snd (get_connection_stats conn2)
     @ snd (get_cache_hit_ratio conn1) @ snd (get_cache_hit_ratio conn2)
     @ snd (get_database_size conn1) @ snd (get_database_size conn2)
     @ snd (get_table_count_and_stats conn1) @ snd (get_table_count_and_stats conn2)
     @ snd (get_index_stats conn1) @ snd (get_index_stats conn2)
     @ snd (get_lock_stats conn1) @ snd (get_lock_stats conn2)
     @ snd (get_active_queries conn1) @ snd (get_active_queries conn2)
     @ snd (get_longest_queries conn1) @ snd (get_longest_queries conn2)
     @ snd (get_table_bloat conn1) @ snd (get_table_bloat conn2)
     @ snd (get_query_performance_issues conn1) @ snd (get_query_performance_issues conn2)
     @ snd (get_autovacuum_stats conn1) @ snd (get_autovacuum_stats conn2)
     @ snd (get_memory_stats conn1) @ snd (get_memory_stats conn2)"

definition render_item :: "(tabulate_call \<Rightarrow> string) \<Rightarrow> report_item \<Rightarrow> string" where
  "render_item tabulate it = (case it of Line s \<Rightarrow> s | Table t \<Rightarrow> tabulate t)"

text \<open>The report text and the lines logged while it was made. \<open>tabulate\<close> is the library
  function and \<open>now\<close> is \<^verbatim>\<open>datetime.now().strftime('%Y-%m-%d %H:%M:%S')\<close>.\<close>

definition generate_markdown_report ::
  "(tabulate_call \<Rightarrow> string) \<Rightarrow> string \<Rightarrow> server_config \<Rightarrow> server_config \<Rightarrow>
   connection \<Rightarrow> connection \<Rightarrow> string \<times> string list" where
  "generate_markdown_report tabulate now server1 server2 conn1 conn2 =
     (join ''\<newline>'' (map (render_item tabulate) (report_items now server1 server2 conn1 conn2)),
      report_log conn1 conn2)"


section \<open>\<^verbatim>\<open>main\<close>\<close>

datatype output_format = Markdown | Json

text \<open>The parsed command line: a required argument is \<open>None\<close> when neither the flag nor
  its environment variable is given.\<close>

record cli_args =
  server1_host :: "string option"
  server1_db :: "string option"
  server1_user :: "string option"
  server1_pass :: "string option"
  server1_port :: int
  server2_host :: "string option"
  server2_db :: "string option"
  server2_user :: "string option"
  server2_pass :: "string option"
  server2_port :: int
  output_path :: string
  output_format :: output_format

text \<open>\<^verbatim>\<open>all(required_args)\<close>: an argument is truthy when it is a non-empty string.\<close>

definition truthy :: "string option \<Rightarrow> bool" where
  "truthy a = (case a of None \<Rightarrow> False | Some s \<Rightarrow> s \<noteq> [])"

definition required_args :: "cli_args \<Rightarrow> string option list" where
  "required_args args =
     [server1_host args, server1_db args, server1_user args, server1_pass args,
      server2_host args, server2_db args, server2_user args, server2_pass args]"

text \<open>The value of an argument that has passed the check.\<close>

definition arg_value :: "string option \<Rightarrow> string" where
  "arg_value a = (case a of None \<Rightarrow> [] | Some s \<Rightarrow> s)"

definition server1_config :: "cli_args \<Rightarrow> server_config" where
  "server1_config args =
     \<lparr>name = ''Server1-Fast'', host = arg_value (server1_host args),
      database = arg_value (server1_db args), user = arg_value (server1_user args),
      password = arg_value (server1_pass args), port = server1_port args\<rparr>"

definition server2_config :: "cli_args \<Rightarrow> server_config" where
  "server2_config args =
     \<lparr>name = ''Server2-Slow'', host = arg_value (server2_host args),
      database = arg_value (server2_db args), user = arg_value (server2_user args),
      password = arg_value (server2_pass args), port = server2_port args\<rparr>"

text \<open>The value handed to \<^verbatim>\<open>json.dumps\<close>; a dictionary keeps its keys in insertion order, and
  \<^verbatim>\<open>server.__dict__\<close> has the fields of the dataclass in the order of their declaration.\<close>

datatype json = JString string | JInt int | JObject "(string \<times> json) list"

definition config_dict :: "server_config \<Rightarrow> json" where
  "config_dict s =
     JObject [(''name'', JString (name s)), (''host'', JString (host s)),
              (''database'', JString (database s)), (''user'', JString (user s)),
              (''password'', JString (password s)), (''port'', JInt (port s))]"

definition json_document :: "server_config \<Rightarrow> server_config \<Rightarrow> json" where
  "json_document server1 server2 =
     JObject [(''server1'', config_dict server1), (''server2'', config_dict server2),
              (''report'', JString ''JSON format not yet implemented'')]"

text \<open>
  What a run does that can be seen from outside, in order. \<open>Connected i\<close> is
  \<^verbatim>\<open>psycopg2.connect\<close> returning the connection of server \<open>i\<close>, \<open>Closed i\<close> is the call of its
  \<^verbatim>\<open>close()\<close>, \<open>Written path text\<close> is the report file, \<open>Uncaught e\<close> is an exception
  that leaves \<^verbatim>\<open>main\<close>, and \<open>Exit n\<close> ends the process with status \<open>n\<close>.
\<close>

datatype event =
    LogInfo string | LogError string | PrintHelp | Print string
  | Connected nat | Closed nat | Written string string | Uncaught string | Exit nat

text \<open>What the run meets outside the program: the outcome of the two \<^verbatim>\<open>psycopg2.connect\<close>
  calls, the clock, and whether writing the output file raises.\<close>

record world =
  connect1 :: "string + connection"
  connect2 :: "string + connection"
  clock :: string
  write_error :: "string option"

text \<open>\<^verbatim>\<open>PostgreSQLComparativeDiagnostic.connect\<close>, called by \<^verbatim>\<open>__init__\<close>: the events, and
  the two connections unless \<^verbatim>\<open>sys.exit(1)\<close> ended the process.\<close>

definition connect ::
  "server_config \<Rightarrow> server_config \<Rightarrow> world \<Rightarrow> event list \<times> (connection \<times> connection) option" where
  "connect server1 server2 w =
     (case connect1 w of
        Inl e \<Rightarrow>
          ([LogError (cross_mark @ '' Failed to connect to '' @ name server1 @ '': '' @ e), Exit 1],
           None)
      | Inr conn1 \<Rightarrow>
          (case connect2 w of
             Inl e \<Rightarrow>
               ([Connected 1, LogInfo (check_mark @ '' Connected to '' @ name server1),
                 LogError (cross_mark @ '' Failed to connect to '' @ name server2 @ '': '' @ e),
                 Exit 1],
                None)
           | Inr conn2 \<Rightarrow>
               ([Connected 1, LogInfo (check_mark @ '' Connected to '' @ name server1),
                 Connected 2, LogInfo (check_mark @ '' Connected to '' @ name server2)],
                Some (conn1, conn2))))"

text \<open>\<^verbatim>\<open>close\<close>: each connection attribute that is set is closed.\<close>

definition close :: "connection option \<Rightarrow> connection option \<Rightarrow> event list" where
  "close conn1 conn2 =
     (if conn1 \<noteq> None then [Closed 1] else []) @ (if conn2 \<noteq> None then [Closed 2] else [])"

definition main ::
  "(tabulate_call \<Rightarrow> string) \<Rightarrow> (json \<Rightarrow> string) \<Rightarrow> cli_args \<Rightarrow> world \<Rightarrow> event list" where
  "main tabulate dumps args w =
     (if \<not> list_all truthy (required_args args)
      then [PrintHelp,
            LogError (cross_mark @ '' Missing required arguments. Use environment variables or command-line args.''),
            Exit 1]
      else
        let server1 = server1_config args;
            server2 = server2_config args;
            start = LogInfo ([CHR 0xF0, CHR 0x9F, CHR 0x9A, CHR 0x80] @ '' Starting comparative diagnostic...'')
        in case connect server1 server2 w of
             (evs, None) \<Rightarrow> start # evs
           | (evs, Some (conn1, conn2)) \<Rightarrow>
               let (report, logged) =
                     (if output_format args = Markdown
                      then generate_markdown_report tabulate (clock w) server1 server2 conn1 conn2
                      else (dumps (json_document server1 server2), []))
               in start # evs @ map LogError logged
                  @ (case write_error w of
                       Some e \<Rightarrow> close (Some conn1) (Some conn2) @ [Uncaught e, Exit 1]
                     | None \<Rightarrow>
                         [Written (output_path args) report,
                          LogInfo (check_mark @ '' Report saved to: '' @ output_path args),
                          Print (''\<newline>'' @ [CHR 0xF0, CHR 0x9F, CHR 0x93, CHR 0x8A]
                                   @ '' Report generated successfully!''),
                          Print ([CHR 0xF0, CHR 0x9F, CHR 0x93, CHR 0x84] @ '' File: '' @ output_path args)]
                         @ close (Some conn1) (Some conn2) @ [Exit 0]))"

section \<open>Predicates of the statements\<close>

text \<open>Row \<open>a\<close> may stand before row \<open>b\<close> in descending order of \<^verbatim>\<open>seq_scan\<close>: both
  counters are there and the first is not the smaller.\<close>

definition seq_scan_ge :: "stat_table_row \<Rightarrow> stat_table_row \<Rightarrow> bool" where
  "seq_scan_ge a b = (case (seq_scan a, seq_scan b) of (Some x, Some y) \<Rightarrow> y \<le> x | _ \<Rightarrow> False)"

text \<open>The two conditions of the performance-issue query on a row whose counters are
  \<open>s\<close> sequential and \<open>i\<close> index scans.\<close>

definition is_missing_index :: "int \<Rightarrow> int \<Rightarrow> bool" where
  "is_missing_index s i = (i = 0 \<and> 100 < s)"

definition is_full_table_scans :: "int \<Rightarrow> int \<Rightarrow> bool" where
  "is_full_table_scans s i = (10 * i < s)"

text \<open>A table row matches the query: both counters are there and one of the conditions
  holds.\<close>

definition matches :: "stat_table_row \<Rightarrow> bool" where
  "matches r =
     (case (seq_scan r, idx_scan r) of
        (Some s, Some i) \<Rightarrow> is_missing_index s i \<or> is_full_table_scans s i
      | _ \<Rightarrow> False)"

text \<open>The label the classification is to give a matching row: \<^verbatim>\<open>MISSING_INDEX\<close> exactly
  on the first condition, \<^verbatim>\<open>FULL_TABLE_SCANS\<close> on the second when the first does not
  hold.\<close>

definition expected_label :: "stat_table_row \<Rightarrow> string" where
  "expected_label r =
     (case (seq_scan r, idx_scan r) of
        (Some s, Some i) \<Rightarrow>
          if is_missing_index s i then ''MISSING_INDEX''
          else if is_full_table_scans s i then ''FULL_TABLE_SCANS'' else ''OK''
      | _ \<Rightarrow> ''OK'')"

text \<open>The thirteen categories, in the order in which the report collects them.\<close>

datatype category =
    Version | Connections | Cache | Size | Tables | Indexes | Locks
  | Active | Longest | Bloat | Performance | Autovacuum | Memory




text \<open>What the \<^verbatim>\<open>get_*\<close> function of a category logs on a connection, and whether it
  returns the empty result: \<^verbatim>\<open>{}\<close> for the scalar categories, \<^verbatim>\<open>[]\<close> for the lists.\<close>

fun logged :: "category \<Rightarrow> connection \<Rightarrow> string list" where
  "logged Version conn = snd (get_version_info conn)"
| "logged Connections conn = snd (get_connection_stats conn)"
| "logged Cache conn = snd (get_cache_hit_ratio conn)"
| "logged Size conn = snd (get_database_size conn)"
| "logged Tables conn = snd (get_table_count_and_stats conn)"
| "logged Indexes conn = snd (get_index_stats conn)"
| "logged Locks conn = snd (get_lock_stats conn)"
| "logged Active conn = snd (get_active_queries conn)"
| "logged Longest conn = snd (get_longest_queries conn)"
| "logged Bloat conn = snd (get_table_bloat conn)"
| "logged Performance conn = snd (get_query_performance_issues conn)"
| "logged Autovacuum conn = snd (get_autovacuum_stats conn)"
| "logged Memory conn = snd (get_memory_stats conn)"





text \<open>The files a run wrote and the connections it opened and closed, in order.\<close>

definition written_files :: "event list \<Rightarrow> (string \<times> string) list" where
  "written_files evs = [(p, t). Written p t \<leftarrow> evs]"

definition opened_connections :: "event list \<Rightarrow> nat list" where
  "opened_connections evs = [i. Connected i \<leftarrow> evs]"

definition closed_connections :: "event list \<Rightarrow> nat list" where
  "closed_connections evs = [i. Closed i \<leftarrow> evs]"

definition exit_status :: "event list \<Rightarrow> nat list" where
  "exit_status evs = [n. Exit n \<leftarrow> evs]"

section \<open>Concrete inputs\<close>

text \<open>A database with one user table without indexes, with the given heap block counters.\<close>

definition one_table :: "int \<Rightarrow> int \<Rightarrow> statio_row list" where
  "one_table hit read =
     [\<lparr>heap_blks_read = Some read, heap_blks_hit = Some hit,
       idx_blks_read = None, idx_blks_hit = None\<rparr>]"


definition example_version_row :: version_row where
  "example_version_row =
     \<lparr>v_version = Some ''PostgreSQL 16.2 on x86_64-pc-linux-gnu'', v_pg_version = Some ''16.2'',
      v_max_connections = Some 100, v_shared_buffers = Some ''128MB'',
      v_effective_cache_size = Some ''4GB'', v_work_mem = Some ''4MB'',
      v_maintenance_work_mem = Some ''64MB'', v_random_page_cost = Some (Finite 4),
      v_effective_io_concurrency = Some 1, v_synchronous_commit = Some ''on'',
      v_wal_level = Some ''replica''\<rparr>"


definition version_only_connection :: connection where
  "version_only_connection =
     \<lparr>version_query = Inr [example_version_row], connection_query = Inr [], cache_query = Inr [],
      size_query = Inr [], table_query = Inr [], index_query = Inr [], active_query = Inr [],
      longest_query = Inr [], bloat_query = Inr [], autovacuum_query = Inr [],
      performance_query = Inr [], lock_query = Inr [], memory_query = Inr []\<rparr>"

definition example_args :: "output_format \<Rightarrow> cli_args" where
  "example_args fmt =
     \<lparr>server1_host = Some ''fast.example.org'', server1_db = Some ''mydb'',
      server1_user = Some ''admin'', server1_pass = Some ''pass1'', server1_port = 5432,
      server2_host = Some ''slow.example.org'', server2_db = Some ''mydb'',
      server2_user = Some ''admin'', server2_pass = Some ''pass2'', server2_port = 5432,
      output_path = ''azure_comparison.md'', output_format = fmt\<rparr>"

text \<open>Three user tables: 10 sequential against 5 index scans, 50 against 4, and 150
  against none.\<close>

definition example_tables :: "stat_table_row list" where
  "example_tables =
     [\<lparr>schemaname = ''public'', relname = ''orders'', seq_scan = Some 10, idx_scan = Some 5,
       total_size_pretty = ''16 MB''\<rparr>,
      \<lparr>schemaname = ''public'', relname = ''events'', seq_scan = Some 50, idx_scan = Some 4,
       total_size_pretty = ''240 MB''\<rparr>,
      \<lparr>schemaname = ''public'', relname = ''audit_log'', seq_scan = Some 150, idx_scan = Some 0,
       total_size_pretty = ''2048 kB''\<rparr>]"

text \<open>The outside of a run: both connections open, the second behaving as
  \<open>version_only_connection\<close>, the first as given; the output file can be written.\<close>

definition example_world :: "connection \<Rightarrow> world" where
  "example_world conn1 =
     \<lparr>connect1 = Inr conn1, connect2 = Inr version_only_connection,
      clock = ''2024-01-01 12:00:00'', write_error = None\<rparr>"

text \<open>The same, but the second server refuses the connection.\<close>

definition second_refused_world :: world where
  "second_refused_world =
     \<lparr>connect1 = Inr version_only_connection, connect2 = Inl ''connection refused'',
      clock = ''2024-01-01 12:00:00'', write_error = None\<rparr>"

section \<open>Properties of the float model\<close>

lemma float_of_rat_0: "float_of_rat 0 = Finite 0"
  by (simp add: float_of_rat_def binary64_round_def)




lemma ilog2_bounds:
  assumes "q \<noteq> 0"
  shows "2 powi (ilog2 q) \<le> \<bar>q\<bar>" and "\<bar>q\<bar> < 2 powi (ilog2 q + 1)"
proof -
  obtain a b where ab: "quotient_of \<bar>q\<bar> = (a, b)"
    by (cases "quotient_of \<bar>q\<bar>")
  have b: "0 < b"
    by (rule quotient_of_denom_pos [OF ab])
  have q: "\<bar>q\<bar> = of_int a / of_int b"
    by (rule quotient_of_div [OF ab])
  have a: "0 < a"
  proof -
    have "0 < \<bar>q\<bar>" using assms by simp
    then have "0 < (of_int a :: rat) / of_int b" by (simp only: q)
    with b show ?thesis by (simp add: zero_less_divide_iff)
  qed
  define fa where "fa = floorlog 2 (nat a)"
  define fb where "fb = floorlog 2 (nat b)"
  have na: "2 ^ (fa - 1) \<le> nat a" "nat a < 2 ^ fa"
    using floorlog_bounds [of "nat a" 2] a by (simp_all add: fa_def)
  have nb: "2 ^ (fb - 1) \<le> nat b" "nat b < 2 ^ fb"
    using floorlog_bounds [of "nat b" 2] b by (simp_all add: fb_def)
  have "fa \<noteq> 0" "fb \<noteq> 0"
    using a b by (simp_all add: fa_def fb_def floorlog_eq_zero_iff)
  then have pos: "1 \<le> fa" "1 \<le> fb"
    by simp_all
  have ra: "(2::rat) ^ (fa - 1) \<le> of_int a" "(of_int a :: rat) < 2 ^ fa"
  proof -
    have "(of_nat (2 ^ (fa - 1)) :: rat) \<le> of_nat (nat a)" "(of_nat (nat a) :: rat) < of_nat (2 ^ fa)"
      using na by (simp_all only: of_nat_le_iff of_nat_less_iff)
    then show "(2::rat) ^ (fa - 1) \<le> of_int a" "(of_int a :: rat) < 2 ^ fa"
      using a by simp_all
  qed
  have rb: "(2::rat) ^ (fb - 1) \<le> of_int b" "(of_int b :: rat) < 2 ^ fb"
  proof -
    have "(of_nat (2 ^ (fb - 1)) :: rat) \<le> of_nat (nat b)" "(of_nat (nat b) :: rat) < of_nat (2 ^ fb)"
      using nb by (simp_all only: of_nat_le_iff of_nat_less_iff)
    then show "(2::rat) ^ (fb - 1) \<le> of_int b" "(of_int b :: rat) < 2 ^ fb"
      using b by simp_all
  qed
  have upper: "\<bar>q\<bar> < 2 powi (int fa - int fb + 1)"
  proof -
    have "(of_int a :: rat) / of_int b < 2 ^ fa / 2 ^ (fb - 1)"
      using a b ra rb by (intro frac_less) simp_all
    also have "\<dots> = 2 powi (int fa - int (fb - 1))"
      by (simp add: power_int_diff)
    also have "int fa - int (fb - 1) = int fa - int fb + 1"
      using pos by simp
    finally show ?thesis by (simp only: q)
  qed
  have lower: "2 powi (int fa - int fb - 1) < \<bar>q\<bar>"
  proof -
    have "(2::rat) ^ (fa - 1) / 2 ^ fb < of_int a / of_int b"
      using a b ra rb by (intro frac_less2) simp_all
    moreover have "(2::rat) ^ (fa - 1) / 2 ^ fb = 2 powi (int (fa - 1) - int fb)"
      by (simp add: power_int_diff)
    moreover have "int (fa - 1) - int fb = int fa - int fb - 1"
      using pos by simp
    ultimately show ?thesis by (simp only: q)
  qed
  have eq: "ilog2 q = (if 2 powi (int fa - int fb) \<le> \<bar>q\<bar> then int fa - int fb else int fa - int fb - 1)"
    by (simp add: ilog2_def ab fa_def fb_def Let_def)
  show "2 powi (ilog2 q) \<le> \<bar>q\<bar>"
    using lower by (simp add: eq)
  show "\<bar>q\<bar> < 2 powi (ilog2 q + 1)"
    using upper by (auto simp add: eq not_le)
qed

text \<open>\<open>ilog2 q\<close> is the one exponent \<open>e\<close> with \<open>2\<^sup>e \<le> \<bar>q\<bar> < 2\<^sup>e\<^sup>+\<^sup>1\<close>.\<close>

lemma ilog2_unique:
  assumes "2 powi e \<le> \<bar>q\<bar>" and "\<bar>q\<bar> < 2 powi (e + 1)"
  shows "ilog2 q = e"
proof -
  have "(0::rat) < 2 powi e"
    by (rule zero_less_power_int) simp
  with assms(1) have "0 < \<bar>q\<bar>"
    by linarith
  then have "q \<noteq> 0" by simp
  note b = ilog2_bounds [OF this]
  have "(2::rat) powi (ilog2 q) < 2 powi (e + 1)"
    using b(1) assms(2) by (rule le_less_trans)
  then have "ilog2 q < e + 1"
    by (metis not_le one_le_numeral power_int_increasing leD)
  moreover have "(2::rat) powi e < 2 powi (ilog2 q + 1)"
    using assms(1) b(2) by (rule le_less_trans)
  then have "e < ilog2 q + 1"
    by (metis not_le one_le_numeral power_int_increasing leD)
  ultimately show ?thesis by simp
qed

lemma round_half_even_close: "\<bar>of_int (round_half_even x) - x\<bar> \<le> 1 / 2"
proof -
  have "of_int \<lfloor>x\<rfloor> \<le> x" "x < of_int \<lfloor>x\<rfloor> + 1"
    by linarith+
  then show ?thesis
    by (auto simp add: round_half_even_def Let_def abs_le_iff)
qed

text \<open>The rounded value is a multiple of the unit in the last place of its argument and
  lies within half that unit of it.\<close>

lemma binary64_round_close:
  "\<bar>binary64_round q - q\<bar> \<le> 2 powi (max (ilog2 q) (- 1022) - 52) / 2"
proof (cases "q = 0")
  case True
  have "(0::rat) \<le> 2 powi (max (ilog2 q) (- 1022) - 52)"
    by (rule zero_le_power_int) simp
  with True show ?thesis
    by (simp add: binary64_round_def)
next
  case False
  define ulp :: rat where "ulp = 2 powi (max (ilog2 q) (- 1022) - 52)"
  define x :: rat where "x = of_int (round_half_even (q / ulp))"
  have pos: "0 < ulp"
    unfolding ulp_def by (rule zero_less_power_int) simp
  have r: "binary64_round q = x * ulp"
    using False by (simp add: binary64_round_def Let_def ulp_def x_def)
  have "\<bar>x * ulp - q\<bar> = \<bar>(x - q / ulp) * ulp\<bar>"
    using pos by (simp add: left_diff_distrib)
  also have "\<dots> = \<bar>x - q / ulp\<bar> * ulp"
    using pos by (simp add: abs_mult)
  also have "\<dots> \<le> 1 / 2 * ulp"
    using pos round_half_even_close [of "q / ulp"] unfolding x_def
    by (intro mult_right_mono) simp_all
  finally show ?thesis
    by (simp add: r ulp_def)
qed

lemma floor_rat_numeral:
  "\<lfloor>(numeral a :: rat) / numeral b\<rfloor> = numeral a div numeral b"
  "\<lfloor>- (numeral a :: rat) / numeral b\<rfloor> = - numeral a div numeral b"
proof -
  have "\<lfloor>(of_int (numeral a) :: rat) / of_int (numeral b)\<rfloor> = numeral a div numeral b"
    by (rule floor_divide_of_int_eq)
  then show "\<lfloor>(numeral a :: rat) / numeral b\<rfloor> = numeral a div numeral b"
    by simp
  have "\<lfloor>(of_int (- numeral a) :: rat) / of_int (numeral b)\<rfloor> = - numeral a div numeral b"
    by (rule floor_divide_of_int_eq)
  then show "\<lfloor>- (numeral a :: rat) / numeral b\<rfloor> = - numeral a div numeral b"
    by simp
qed

text \<open>Two decimals that are no floats, and their difference as floats: 6.01 and 16.01 are
  ten apart, the floats nearest to them are further apart by one unit in the last place of
  the difference, \<open>2\<^sup>-\<^sup>4\<^sup>9\<close>. (Python prints this difference as \<^verbatim>\<open>-10.000000000000002\<close>.)\<close>

lemma ilog2_examples:
  "ilog2 (601 / 100) = 2" "ilog2 (1601 / 100) = 4"
  "ilog2 (- (5629499534213121 / 562949953421312)) = 3"
  by (rule ilog2_unique; simp)+

lemma float_of_rat_examples:
  "float_of_rat (601 / 100) = Finite (3383329220062085 / 562949953421312)"
  "float_of_rat (1601 / 100) = Finite (4506414377137603 / 281474976710656)"
  by (simp_all add: float_of_rat_def binary64_round_def ilog2_examples round_half_even_def Let_def
      power_int_minus floor_rat_numeral)

lemma float_sub_example:
  "float_sub (float_of_rat (601 / 100)) (float_of_rat (1601 / 100)) = Finite (- 10 - 1 / 2 ^ 49)"
  by (simp add: float_of_rat_examples)
     (simp add: float_of_rat_def binary64_round_def ilog2_examples round_half_even_def Let_def
        power_int_minus floor_rat_numeral)

section \<open>Properties of \<^verbatim>\<open>generate_recommendations\<close>\<close>

text \<open>The list of lines in one piece: each rule contributes its block or nothing, except
  the cache rule, which contributes one of two blocks.\<close>

lemma recommendation_lines_eq:
  "recommendation_lines v1 v2 cache1 cache2 c1 c2 idx1 idx2 =
     (if float_lt_int (cache_diff cache1 cache2) (- 10)
      then [cache_critical_title (cache_diff cache1 cache2),
            ''   - **Fix**: Check for missing indexes on Server 2'',
            ''   - **Fix**: Increase `shared_buffers` and `effective_cache_size` on Server 2'',
            ''   - **Fix**: Analyze queries with high sequential scans vs index scans'']
      else [cache_similar_line])
     @ (if 20 < conn_diff c1 c2
        then [conn_pool_title (conn_diff c1 c2),
              ''   - **Fix**: Identify connection leaks in application'',
              ''   - **Fix**: Implement connection pooling (PgBouncer)'']
        else [])
     @ (if float_gt_int (unused_diff idx1 idx2) 5
        then [index_usage_title (unused_diff idx1 idx2),
              ''   - **Fix**: Drop unused indexes to free disk space and improve writes'']
        else [])
     @ (if get_str v_shared_buffers v1 \<noteq> get_str v_shared_buffers v2
        then [memory_config_title,
              ''   - Server 1: '' @ str_opt (get_str v_shared_buffers v1),
              ''   - Server 2: '' @ str_opt (get_str v_shared_buffers v2),
              ''   - **Fix**: Align settings or upgrade Server 2 configuration'']
        else [])"
  unfolding recommendation_lines_def Let_def
  by (cases "float_lt_int (cache_diff cache1 cache2) (- 10)") simp_all

lemma recommendation_lines_nonempty:
  "recommendation_lines v1 v2 cache1 cache2 c1 c2 idx1 idx2 \<noteq> []"
  by (simp add: recommendation_lines_eq)

lemma is_cache_advisory_simps:
  "is_cache_advisory (cache_critical_title d)"
  "\<not> is_cache_advisory cache_similar_line"
  "\<not> is_cache_advisory (conn_pool_title n)"
  "\<not> is_cache_advisory (index_usage_title u)"
  "\<not> is_cache_advisory memory_config_title"
  "\<not> is_cache_advisory no_major_differences"
  "\<not> is_cache_advisory (CHR '' '' # s)"
  by (simp_all add: is_cache_advisory_def cache_critical_title_def cache_similar_line_def
      conn_pool_title_def index_usage_title_def memory_config_title_def no_major_differences_def
      check_mark_def cross_mark_def)


lemma no_major_differences_neq:
  "no_major_differences \<noteq> cache_critical_title d"
  "no_major_differences \<noteq> cache_similar_line"
  "no_major_differences \<noteq> conn_pool_title n"
  "no_major_differences \<noteq> index_usage_title u"
  "no_major_differences \<noteq> memory_config_title"
  "no_major_differences \<noteq> CHR '' '' # s"
  by (simp_all add: cache_critical_title_def cache_similar_line_def
      conn_pool_title_def index_usage_title_def memory_config_title_def no_major_differences_def
      check_mark_def cross_mark_def)

text \<open>The closing \<^verbatim>\<open>if not recommendations\<close> is never taken: its message is in no result.\<close>

lemma no_major_differences_unreachable:
  "no_major_differences \<notin> set (recommendation_lines v1 v2 cache1 cache2 c1 c2 idx1 idx2)"
  by (simp add: recommendation_lines_eq no_major_differences_neq)

lemma cache_diff_empty: "cache_diff None None = Finite 0"
  by (simp add: cache_diff_def get_num_def or_zero_def py_float_def float_of_rat_0)

lemma unused_diff_empty: "unused_diff None None = Finite 0"
  by (simp add: unused_diff_def get_num_def or_zero_def py_float_def float_of_rat_0)

lemma conn_diff_empty: "conn_diff None None = 0"
  by (simp add: conn_diff_def get_num_def or_zero_def py_int_def Let_def)

text \<open>When no rule fires the result is the single line of the cache rule's \<^verbatim>\<open>else\<close>.\<close>

lemma no_rule_fires:
  assumes "\<not> float_lt_int (cache_diff cache1 cache2) (- 10)"
      and "\<not> 20 < conn_diff c1 c2"
      and "\<not> float_gt_int (unused_diff idx1 idx2) 5"
      and "get_str v_shared_buffers v1 = get_str v_shared_buffers v2"
  shows "recommendation_lines v1 v2 cache1 cache2 c1 c2 idx1 idx2 = [cache_similar_line]"
  using assms by (simp add: recommendation_lines_eq)

lemma recommendation_lines_empty_rows:
  "recommendation_lines None None None None None None None None = [cache_similar_line]"
  by (rule no_rule_fires) (simp_all add: cache_diff_empty unused_diff_empty conn_diff_empty)

subsection \<open>Values of the examples\<close>


lemma hit_percent_vals:
  "hit_percent (Some 950) (Some 50) = Some (Decimal 9500 2)"
  "hit_percent (Some 850) (Some 150) = Some (Decimal 8500 2)"
  "hit_percent (Some 800) (Some 200) = Some (Decimal 8000 2)"
  "hit_percent (Some 900) (Some 100) = Some (Decimal 9000 2)"
  "hit_percent (Some 0) (Some 0) = None"
  "hit_percent (Some 1601) (Some 8399) = Some (Decimal 1601 2)"
  "hit_percent (Some 601) (Some 9399) = Some (Decimal 601 2)"
  by code_simp+

lemma cache_hit_percent_one_table:
  "cache_hit_percent (cache_hit_ratio_query (one_table hit read)) = hit_percent (Some hit) (Some read)"
  by (simp add: cache_hit_ratio_query_def one_table_def sql_sum_def)




subsection \<open>The fallback message\<close>

text \<open>
  Claim C1. \<^verbatim>\<open>generate_recommendations\<close> always returns at least one line, and when no
  rule fires the result is to be the one fixed message \<^verbatim>\<open>No major differences found\<close>.
  The first half holds (\<open>recommendation_lines_nonempty\<close>). The second does not: the cache
  rule appends a line in its \<^verbatim>\<open>else\<close> branch too, so the list is never empty when the
  closing \<^verbatim>\<open>if not recommendations\<close> is reached (\<open>no_major_differences_unreachable\<close>), and
  what comes out when no rule fires is the line \<^verbatim>\<open>Cache Hit Ratio: Similar between servers\<close>
  (\<open>no_rule_fires\<close>). The theorem runs the function on two servers whose queries all
  returned nothing: every difference is 0, both \<^verbatim>\<open>shared_buffers\<close> are absent, no rule fires.
\<close>

theorem C1_fallback_message_not_emitted:
  "generate_recommendations None None None None None None None None = cache_similar_line
   \<and> generate_recommendations None None None None None None None None \<noteq> no_major_differences"
  using no_major_differences_neq(2)
  by (simp add: generate_recommendations_def recommendation_lines_empty_rows)

subsection \<open>The cache rule\<close>

lemma cache_rule_filter:
  "filter is_cache_advisory (recommendation_lines v1 v2 cache1 cache2 c1 c2 idx1 idx2) =
     (if float_lt_int (cache_diff cache1 cache2) (- 10)
      then [cache_critical_title (cache_diff cache1 cache2)] else [])"
  by (simp add: recommendation_lines_eq is_cache_advisory_simps)




text \<open>
  The difference the rule tests is the one of the two floats. Server 1 at 16.01 percent
  and server 2 at 6.01 percent are ten apart as decimals, but not as floats: the computed
  difference is below \<open>-10\<close> by one unit in the last place, and here the advisory is
  emitted, with \<^verbatim>\<open>10.0\<close> in its heading.
\<close>

lemma cache_diff_rounds_apart:
  "cache_diff (Some (cache_hit_ratio_query (one_table 1601 8399)))
              (Some (cache_hit_ratio_query (one_table 601 9399))) = Finite (- 10 - 1 / 2 ^ 49)"
  by (simp add: cache_diff_def get_num_def or_zero_def py_float_def cache_hit_percent_one_table
      hit_percent_vals float_sub_example)

lemma cache_advisory_at_decimal_minus_ten:
  "dec_value (Decimal 601 2) - dec_value (Decimal 1601 2) = - 10"
  "filter is_cache_advisory
     (recommendation_lines None None
        (Some (cache_hit_ratio_query (one_table 1601 8399)))
        (Some (cache_hit_ratio_query (one_table 601 9399))) None None None None)
   = [cross_mark @ '' **Cache Hit Ratio**: Server 2 has 10.0% lower cache hit ratio. This is likely the PRIMARY performance issue.'']"
  by (simp_all add: cache_rule_filter cache_diff_rounds_apart cache_critical_title_def
      round_half_even_def Let_def floor_rat_numeral str_nat.simps digit_char_def)

subsection \<open>The connection rule\<close>




section \<open>Properties of the performance-issue query\<close>

lemma where_cond_iff_matches: "where_cond r = matches r"
  by (cases "seq_scan r"; cases "idx_scan r")
     (auto simp: where_cond_def matches_def missing_index_cond_def full_scans_cond_def sql_or_def
        sql_and_def sql_eq_const_def sql_gt_def is_missing_index_def is_full_table_scans_def)

lemma issue_type_expected: "issue_type r = expected_label r"
  by (cases "seq_scan r"; cases "idx_scan r")
     (auto simp: issue_type_def expected_label_def missing_index_cond_def full_scans_cond_def
        sql_and_def sql_eq_const_def sql_gt_def is_missing_index_def is_full_table_scans_def)

lemma mset_order_by_seq_scan_desc: "mset (order_by_seq_scan_desc rs) = mset rs"
  by (simp add: order_by_seq_scan_desc_def)

lemma matches_seq_scan: "matches r \<Longrightarrow> \<exists>s. seq_scan r = Some s"
  by (cases "seq_scan r") (simp_all add: matches_def)

lemma sorted_order_by_seq_scan_desc:
  assumes "\<forall>r \<in> set rs. matches r"
  shows "sorted_wrt seq_scan_ge (order_by_seq_scan_desc rs)"
proof -
  let ?key = "\<lambda>r. desc_key (seq_scan r)"
  have "sorted (map ?key (sort_key ?key rs))"
    by (rule sorted_sort_key)
  then have "sorted_wrt (\<lambda>a b. ?key a \<le> ?key b) (sort_key ?key rs)"
    by (simp add: sorted_map)
  moreover have "seq_scan_ge a b"
    if "a \<in> set (sort_key ?key rs)" "b \<in> set (sort_key ?key rs)" "?key a \<le> ?key b" for a b
  proof -
    from that assms have "matches a" "matches b"
      by simp_all
    then obtain x y where "seq_scan a = Some x" "seq_scan b = Some y"
      by (meson matches_seq_scan)
    with that(3) show ?thesis
      by (simp add: seq_scan_ge_def desc_key_def)
  qed
  ultimately show ?thesis
    unfolding order_by_seq_scan_desc_def by (rule sorted_wrt_mono_rel[rotated]) blast
qed

text \<open>
  Claim C5. The result of the performance-issue query is made of the table rows that match
  one of the two conditions (\<open>idx_scan = 0\<close> and \<open>seq_scan > 100\<close>, or
  \<open>seq_scan > 10 * idx_scan\<close>) and of no other row: it is the first 15 of these rows in
  descending order of \<open>seq_scan\<close>, so it has at most 15 rows (and it is empty when the
  query fails on a counter so large that ten times it is no \<^verbatim>\<open>bigint\<close>). Every row is labelled
  \<^verbatim>\<open>MISSING_INDEX\<close> exactly when \<open>idx_scan = 0\<close> and \<open>seq_scan > 100\<close>, and
  \<^verbatim>\<open>FULL_TABLE_SCANS\<close> when \<open>seq_scan > 10 * idx_scan\<close> and the first label does not apply
  (the first \<^verbatim>\<open>WHEN\<close> of the \<^verbatim>\<open>CASE\<close> decides).
\<close>

theorem C5_performance_issue_classification:
  "(\<exists>ordered.
      mset ordered = mset (filter matches tbls)
      \<and> sorted_wrt seq_scan_ge ordered
      \<and> query_performance_issues tbls
          = (if list_ex product_overflows tbls then []
             else map select_perf_issue (take 15 ordered)))
   \<and> length (query_performance_issues tbls) \<le> 15
   \<and> (\<forall>r. p_issue_type (select_perf_issue r) = expected_label r
          \<and> p_seq_scan (select_perf_issue r) = seq_scan r
          \<and> p_idx_scan (select_perf_issue r) = idx_scan r
          \<and> p_table_name (select_perf_issue r) = relname r)"
proof -
  let ?ordered = "order_by_seq_scan_desc (filter matches tbls)"
  have filter_eq: "filter where_cond tbls = filter matches tbls"
    by (simp add: where_cond_iff_matches cong: filter_cong)
  have "mset ?ordered = mset (filter matches tbls)"
    by (rule mset_order_by_seq_scan_desc)
  moreover have "sorted_wrt seq_scan_ge ?ordered"
    by (rule sorted_order_by_seq_scan_desc) simp
  moreover have "query_performance_issues tbls
          = (if list_ex product_overflows tbls then []
             else map select_perf_issue (take 15 ?ordered))"
    by (simp add: query_performance_issues_def performance_issues_query_def execute_query_def
        filter_eq)
  moreover have "length (query_performance_issues tbls) \<le> 15"
    by (simp add: query_performance_issues_def performance_issues_query_def execute_query_def)
  moreover have "p_issue_type (select_perf_issue r) = expected_label r
      \<and> p_seq_scan (select_perf_issue r) = seq_scan r
      \<and> p_idx_scan (select_perf_issue r) = idx_scan r
      \<and> p_table_name (select_perf_issue r) = relname r" for r
    by (simp add: select_perf_issue_def issue_type_expected)
  ultimately show ?thesis by blast
qed

text \<open>The three rows of the example: 150 sequential scans and no index scan is
  \<^verbatim>\<open>MISSING_INDEX\<close>, 50 against 4 is \<^verbatim>\<open>FULL_TABLE_SCANS\<close>, 10 against 5 matches neither
  condition and is not in the result.\<close>

lemma example_tables_result:
  "map p_table_name (query_performance_issues example_tables) = [''audit_log'', ''events'']"
  "map p_issue_type (query_performance_issues example_tables) = [''MISSING_INDEX'', ''FULL_TABLE_SCANS'']"
  "map p_seq_scan (query_performance_issues example_tables) = [Some 150, Some 50]"
  "map matches example_tables = [False, True, True]"
  by (simp_all add: query_performance_issues_def performance_issues_query_def execute_query_def
      product_overflows_def int8_range_def example_tables_def where_cond_iff_matches
      matches_def is_missing_index_def is_full_table_scans_def order_by_seq_scan_desc_def
      desc_key_def select_perf_issue_def issue_type_expected expected_label_def)


theorem C5_performance_issue_witness:
  "map p_table_name (query_performance_issues example_tables) = [''audit_log'', ''events'']
   \<and> map p_issue_type (query_performance_issues example_tables)
       = [''MISSING_INDEX'', ''FULL_TABLE_SCANS'']
   \<and> map p_seq_scan (query_performance_issues example_tables) = [Some 150, Some 50]
   \<and> map matches example_tables = [False, True, True]
   \<and> length (query_performance_issues example_tables) \<le> 15"
  using C5_performance_issue_classification [of example_tables]
  by (simp add: example_tables_result)

section \<open>Properties of the cache query and of its rendering\<close>

lemma hit_percent_nonzero:
  "hit + read \<noteq> 0 \<Longrightarrow>
   hit_percent (Some hit) (Some read) = Some (sql_round (100 * of_int hit / of_int (hit + read)) 2)"
  by (simp add: hit_percent_def sql_add_def sql_nullif_zero_def)

lemma hit_percent_zero: "hit + read = 0 \<Longrightarrow> hit_percent (Some hit) (Some read) = None"
  by (simp add: hit_percent_def sql_add_def sql_nullif_zero_def)

lemma hit_percent_null: "hit_percent None read = None" "hit_percent hit None = None"
  by (simp_all add: hit_percent_def sql_add_def sql_nullif_zero_def split: option.splits)

text \<open>\<open>sql_round q 2\<close> is a number with two decimals at distance at most 0.005 from \<open>q\<close>.\<close>

lemma round_half_away_close: "\<bar>of_int (round_half_away q) - q\<bar> \<le> 1 / 2"
proof (cases "0 \<le> q")
  case True
  let ?f = "\<lfloor>q + 1 / 2\<rfloor>"
  have "of_int ?f \<le> q + 1 / 2" "q + 1 / 2 < of_int ?f + 1"
    by linarith+
  then have "\<bar>of_int ?f - q\<bar> \<le> 1 / 2"
    by linarith
  with True show ?thesis
    by (simp only: round_half_away_def if_True)
next
  case False
  let ?f = "\<lfloor>- q + 1 / 2\<rfloor>"
  have "of_int ?f \<le> - q + 1 / 2" "- q + 1 / 2 < of_int ?f + 1"
    by linarith+
  then have "\<bar>- of_int ?f - q\<bar> \<le> 1 / 2"
    by linarith
  with False show ?thesis
    by (simp only: round_half_away_def if_False of_int_minus)
qed

lemma sql_round_close: "\<bar>dec_value (sql_round q 2) - q\<bar> \<le> 1 / 200"
proof -
  have "\<bar>of_int (round_half_away (q * 100)) - q * 100\<bar> \<le> 1 / 2"
    by (rule round_half_away_close)
  then have "\<bar>(of_int (round_half_away (q * 100)) - q * 100) / 100\<bar> \<le> (1 / 2) / 100"
    by (simp add: abs_divide)
  then show ?thesis
    by (simp add: sql_round_def diff_divide_distrib)
qed

lemma str_decimal_95: "str_decimal (Decimal 9500 2) = ''95.00''"
  by (simp add: Let_def str_nat.simps digit_char_def)

text \<open>
  Claim C4. The percentage is \<open>ROUND(100 * hit / (hit + read), 2)\<close> when the denominator is
  not zero (\<open>hit_percent_nonzero\<close>, \<open>sql_round_close\<close>, 95.00 for 950 hits and 50 reads), it
  is NULL when \<open>hit + read = 0\<close> (\<open>hit_percent_zero\<close>), and no division by zero is made.
  But the NULL does not render as the placeholder: the row has the key, with the value
  \<^verbatim>\<open>None\<close>, so \<^verbatim>\<open>cache1.get('cache_hit_percent', 'N/A')\<close> is \<^verbatim>\<open>None\<close> and the cell of the
  report is \<^verbatim>\<open>None%\<close>. The theorem renders the cache table for a server 1 with no block
  read or hit yet and a server 2 with 950 hits and 50 reads.
\<close>

theorem C4_null_percent_renders_as_None:
  "cache_hit_percent (cache_hit_ratio_query (one_table 0 0)) = None
   \<and> cache_hit_percent (cache_hit_ratio_query (one_table 950 50)) = Some (Decimal 9500 2)
   \<and> hd (cache_table (fst (first_or_empty (execute_query (Inr [cache_hit_ratio_query (one_table 0 0)]))))
                     (fst (first_or_empty (execute_query (Inr [cache_hit_ratio_query (one_table 950 50)])))))
     = [PStr ''Heap Cache Hit %'', PStr ''None%'', PStr ''95.00%'']"
  by (simp add: cache_hit_percent_one_table hit_percent_vals cache_table_def percent_cell_def
      execute_query_def first_or_empty_def Let_def str_nat.simps digit_char_def)

section \<open>Properties of the report\<close>

subsection \<open>Sections\<close>








subsection \<open>List-valued categories without rows\<close>

lemma no_data_sentences:
  "Line ''\<newline>### Server 1: No active queries\<newline>'' \<in> set (active_section [] act2)"
  "Line ''\<newline>### Server 2: No active queries\<newline>'' \<in> set (active_section act1 [])"
  "Line ''\<newline>### Server 1: No long running queries\<newline>'' \<in> set (longest_section [] long2)"
  "Line ''\<newline>### Server 2: No long running queries\<newline>'' \<in> set (longest_section long1 [])"
  "Line ''\<newline>### Server 1: No significant table bloat\<newline>'' \<in> set (bloat_section [] bloat2)"
  "Line ''\<newline>### Server 2: No significant table bloat\<newline>'' \<in> set (bloat_section bloat1 [])"
  "Line ''\<newline>### Server 1: No query performance issues detected\<newline>''
     \<in> set (performance_section [] perf2)"
  "Line ''\<newline>### Server 2: No query performance issues detected\<newline>''
     \<in> set (performance_section perf1 [])"
  by (simp_all add: active_section_def longest_section_def bloat_section_def
      performance_section_def)

text \<open>In the autovacuum section a server without rows gets nothing: the section is the
  heading, what the other server gets, and the closing newline.\<close>

lemma autovacuum_section_empty:
  "autovacuum_section [] [] = [Line autovacuum_heading, Line ''\<newline>'']"
  "autovacuum_section [] (r # rs) =
     [Line autovacuum_heading, Line ''\<newline>### Server 2\<newline>'',
      Table (DictTable (take 5 (r # rs))
        [None, Some 30, None, None, None, None, None, None, None, None, None]),
      Line ''\<newline>'']"
  by (simp_all add: autovacuum_section_def)

lemma execute_query_no_rows: "execute_query (Inr []) = ([], [])"
  by (simp add: execute_query_def)

text \<open>
  Claim C8. For each list-valued category, a server whose list is empty is to get a fixed
  sentence in the report. Active queries, long-running queries, bloat and performance
  issues do so (\<open>no_data_sentences\<close>); the autovacuum section has no \<^verbatim>\<open>else\<close> branch and
  renders nothing for that server. The theorem takes two servers on which the autovacuum
  and the active-queries queries return no row: the active-queries section has its two
  sentences, the autovacuum section is its heading and a newline.
\<close>

theorem C8_autovacuum_renders_nothing:
  "fst (get_autovacuum_stats version_only_connection) = []
   \<and> fst (get_active_queries version_only_connection) = []
   \<and> active_section (fst (get_active_queries version_only_connection))
                     (fst (get_active_queries version_only_connection))
     = [Line active_heading,
        Line ''\<newline>### Server 1: No active queries\<newline>'',
        Line ''\<newline>### Server 2: No active queries\<newline>'',
        Line ''\<newline>'']
   \<and> autovacuum_section (fst (get_autovacuum_stats version_only_connection))
                         (fst (get_autovacuum_stats version_only_connection))
     = [Line autovacuum_heading, Line ''\<newline>'']"
  by (simp add: get_autovacuum_stats_def get_active_queries_def version_only_connection_def
      execute_query_no_rows active_section_def autovacuum_section_empty)

subsection \<open>A query that fails\<close>











section \<open>Properties of a run\<close>

lemma connect_both:
  "connect1 w = Inr conn1 \<Longrightarrow> connect2 w = Inr conn2 \<Longrightarrow>
   connect server1 server2 w =
     ([Connected 1, LogInfo (check_mark @ '' Connected to '' @ name server1),
       Connected 2, LogInfo (check_mark @ '' Connected to '' @ name server2)],
      Some (conn1, conn2))"
  by (simp add: connect_def)



lemma written_files_simps:
  "written_files [] = []"
  "written_files (Written p t # evs) = (p, t) # written_files evs"
  "written_files (LogInfo s # evs) = written_files evs"
  "written_files (LogError s # evs) = written_files evs"
  "written_files (Print s # evs) = written_files evs"
  "written_files (PrintHelp # evs) = written_files evs"
  "written_files (Connected i # evs) = written_files evs"
  "written_files (Closed i # evs) = written_files evs"
  "written_files (Uncaught s # evs) = written_files evs"
  "written_files (Exit n # evs) = written_files evs"
  "written_files (evs @ evs') = written_files evs @ written_files evs'"
  "written_files (map LogError l) = []"
  by (simp_all add: written_files_def)

lemma exit_status_simps:
  "exit_status [] = []"
  "exit_status (Exit n # evs) = n # exit_status evs"
  "exit_status (Written p t # evs) = exit_status evs"
  "exit_status (LogInfo s # evs) = exit_status evs"
  "exit_status (LogError s # evs) = exit_status evs"
  "exit_status (Print s # evs) = exit_status evs"
  "exit_status (PrintHelp # evs) = exit_status evs"
  "exit_status (Connected i # evs) = exit_status evs"
  "exit_status (Closed i # evs) = exit_status evs"
  "exit_status (Uncaught s # evs) = exit_status evs"
  "exit_status (evs @ evs') = exit_status evs @ exit_status evs'"
  "exit_status (map LogError l) = []"
  by (simp_all add: exit_status_def)


lemma example_args_valid: "list_all truthy (required_args (example_args fmt))"
  by (simp add: required_args_def example_args_def truthy_def)




subsection \<open>Connections\<close>

lemma closed_connections_simps:
  "closed_connections [] = []"
  "closed_connections (Closed i # evs) = i # closed_connections evs"
  "closed_connections (Exit n # evs) = closed_connections evs"
  "closed_connections (Written p t # evs) = closed_connections evs"
  "closed_connections (LogInfo s # evs) = closed_connections evs"
  "closed_connections (LogError s # evs) = closed_connections evs"
  "closed_connections (Print s # evs) = closed_connections evs"
  "closed_connections (PrintHelp # evs) = closed_connections evs"
  "closed_connections (Connected i # evs) = closed_connections evs"
  "closed_connections (Uncaught s # evs) = closed_connections evs"
  "closed_connections (evs @ evs') = closed_connections evs @ closed_connections evs'"
  "closed_connections (map LogError l) = []"
  by (simp_all add: closed_connections_def)

lemma opened_connections_simps:
  "opened_connections [] = []"
  "opened_connections (Connected i # evs) = i # opened_connections evs"
  "opened_connections (Exit n # evs) = opened_connections evs"
  "opened_connections (Written p t # evs) = opened_connections evs"
  "opened_connections (LogInfo s # evs) = opened_connections evs"
  "opened_connections (LogError s # evs) = opened_connections evs"
  "opened_connections (Print s # evs) = opened_connections evs"
  "opened_connections (PrintHelp # evs) = opened_connections evs"
  "opened_connections (Closed i # evs) = opened_connections evs"
  "opened_connections (Uncaught s # evs) = opened_connections evs"
  "opened_connections (evs @ evs') = opened_connections evs @ opened_connections evs'"
  "opened_connections (map LogError l) = []"
  by (simp_all add: opened_connections_def)

text \<open>Once both connections are open, every way out of \<^verbatim>\<open>main\<close> closes both: the
  \<^verbatim>\<open>finally\<close> clause runs after a written report and after a failed write alike.\<close>

lemma main_closes_both:
  assumes "list_all truthy (required_args args)"
      and "connect1 w = Inr conn1" "connect2 w = Inr conn2"
  shows "opened_connections (main tabulate dumps args w) = [1, 2]"
    and "closed_connections (main tabulate dumps args w) = [1, 2]"
  using assms
  by (simp_all add: main_def Let_def connect_both close_def opened_connections_simps
      closed_connections_simps split: prod.splits option.splits)

text \<open>When the first connection cannot be opened there is none to close.\<close>

lemma main_first_refused:
  assumes "list_all truthy (required_args args)" and "connect1 w = Inl e"
  shows "opened_connections (main tabulate dumps args w) = []"
    and "exit_status (main tabulate dumps args w) = [1]"
  using assms
  by (simp_all add: main_def Let_def connect_def opened_connections_simps exit_status_simps)

text \<open>When the second connection cannot be opened, \<^verbatim>\<open>connect\<close> calls \<^verbatim>\<open>sys.exit(1)\<close> inside
  \<^verbatim>\<open>__init__\<close>, before \<^verbatim>\<open>main\<close> has entered its \<^verbatim>\<open>try\<close>: the first connection is open
  and nothing closes it.\<close>

lemma main_second_refused:
  assumes "list_all truthy (required_args args)"
      and "connect1 w = Inr conn1" and "connect2 w = Inl e"
  shows "main tabulate dumps args w =
     [LogInfo ([CHR 0xF0, CHR 0x9F, CHR 0x9A, CHR 0x80] @ '' Starting comparative diagnostic...''),
      Connected 1, LogInfo (check_mark @ '' Connected to Server1-Fast''),
      LogError (cross_mark @ '' Failed to connect to Server2-Slow: '' @ e),
      Exit 1]"
  using assms
  by (simp add: main_def Let_def connect_def server1_config_def server2_config_def)

text \<open>
  Claim C9. Every connection that was opened is to be closed by the program on every way
  out, also when the first connection succeeds and the second fails. After both
  connections are open this holds (\<open>main_closes_both\<close>). It does not hold for the case the
  claim singles out: the theorem runs \<^verbatim>\<open>main\<close> where server 1 accepts the connection and
  server 2 refuses it. The run opens connection 1, logs the failure and exits with status
  1; no \<^verbatim>\<open>close()\<close> is called.
\<close>

theorem C9_first_connection_left_open:
  "main tabulate dumps (example_args Markdown) second_refused_world =
     [LogInfo ([CHR 0xF0, CHR 0x9F, CHR 0x9A, CHR 0x80] @ '' Starting comparative diagnostic...''),
      Connected 1, LogInfo (check_mark @ '' Connected to Server1-Fast''),
      LogError (cross_mark @ '' Failed to connect to Server2-Slow: connection refused''),
      Exit 1]
   \<and> opened_connections (main tabulate dumps (example_args Markdown) second_refused_world) = [1]
   \<and> closed_connections (main tabulate dumps (example_args Markdown) second_refused_world) = []"
proof -
  have "connect1 second_refused_world = Inr version_only_connection"
       "connect2 second_refused_world = Inl ''connection refused''"
    by (simp_all add: second_refused_world_def)
  note run = main_second_refused [OF example_args_valid this, of tabulate dumps Markdown]
  show ?thesis
    unfolding run by (simp add: opened_connections_simps closed_connections_simps)
qed

subsection \<open>The JSON output\<close>

lemma truthy_Some: "truthy a \<Longrightarrow> \<exists>s. a = Some s \<and> s \<noteq> []"
  by (cases a) (simp_all add: truthy_def)

text \<open>A JSON run with both connections open and a writable output file: no query is run
  and nothing of the connections reaches the output.\<close>

lemma main_json_run:
  assumes "list_all truthy (required_args args)" "output_format args = Json"
      and "connect1 w = Inr conn1" "connect2 w = Inr conn2" "write_error w = None"
  shows "main tabulate dumps args w =
     [LogInfo ([CHR 0xF0, CHR 0x9F, CHR 0x9A, CHR 0x80] @ '' Starting comparative diagnostic...''),
      Connected 1, LogInfo (check_mark @ '' Connected to Server1-Fast''),
      Connected 2, LogInfo (check_mark @ '' Connected to Server2-Slow''),
      Written (output_path args) (dumps (json_document (server1_config args) (server2_config args))),
      LogInfo (check_mark @ '' Report saved to: '' @ output_path args),
      Print (''\<newline>'' @ [CHR 0xF0, CHR 0x9F, CHR 0x93, CHR 0x8A] @ '' Report generated successfully!''),
      Print ([CHR 0xF0, CHR 0x9F, CHR 0x93, CHR 0x84] @ '' File: '' @ output_path args),
      Closed 1, Closed 2, Exit 0]"
  using assms
  by (simp add: main_def Let_def connect_both close_def server1_config_def server2_config_def)

text \<open>
  Claim C10. On a run with the \<^verbatim>\<open>json\<close> format that reaches the output (all required
  arguments given, both connections open, the file writable), the one file written is the
  serialisation of a document with the two server configurations, field by field in the
  order of the dataclass and with the passwords as they were given on the command line,
  and with the \<^verbatim>\<open>report\<close> field \<^verbatim>\<open>JSON format not yet implemented\<close>. The document is built
  from the arguments alone: it is the same whatever the two connections answer to any query.
\<close>

theorem C10_json_output_is_configuration_with_passwords:
  assumes "list_all truthy (required_args args)" and "output_format args = Json"
      and "connect1 w = Inr conn1" and "connect2 w = Inr conn2" and "write_error w = None"
      and "server1_pass args = Some p1" and "server2_pass args = Some p2"
  shows "written_files (main tabulate dumps args w) =
     [(output_path args,
       dumps (JObject
         [(''server1'', JObject
             [(''name'', JString ''Server1-Fast''),
              (''host'', JString (arg_value (server1_host args))),
              (''database'', JString (arg_value (server1_db args))),
              (''user'', JString (arg_value (server1_user args))),
              (''password'', JString p1),
              (''port'', JInt (server1_port args))]),
          (''server2'', JObject
             [(''name'', JString ''Server2-Slow''),
              (''host'', JString (arg_value (server2_host args))),
              (''database'', JString (arg_value (server2_db args))),
              (''user'', JString (arg_value (server2_user args))),
              (''password'', JString p2),
              (''port'', JInt (server2_port args))]),
          (''report'', JString ''JSON format not yet implemented'')]))]
     \<and> (\<forall>conn1' conn2'.
          written_files (main tabulate dumps args (w\<lparr>connect1 := Inr conn1', connect2 := Inr conn2'\<rparr>))
          = written_files (main tabulate dumps args w))"
proof -
  have doc: "json_document (server1_config args) (server2_config args) =
       JObject
         [(''server1'', JObject
             [(''name'', JString ''Server1-Fast''),
              (''host'', JString (arg_value (server1_host args))),
              (''database'', JString (arg_value (server1_db args))),
              (''user'', JString (arg_value (server1_user args))),
              (''password'', JString p1),
              (''port'', JInt (server1_port args))]),
          (''server2'', JObject
             [(''name'', JString ''Server2-Slow''),
              (''host'', JString (arg_value (server2_host args))),
              (''database'', JString (arg_value (server2_db args))),
              (''user'', JString (arg_value (server2_user args))),
              (''password'', JString p2),
              (''port'', JInt (server2_port args))]),
          (''report'', JString ''JSON format not yet implemented'')]"
    using assms(6,7)
    by (simp add: json_document_def config_dict_def server1_config_def server2_config_def
        arg_value_def)
  have files: "written_files (main tabulate dumps args w') =
      [(output_path args, dumps (json_document (server1_config args) (server2_config args)))]"
    if "connect1 w' = Inr c1" "connect2 w' = Inr c2" "write_error w' = None" for w' c1 c2
    unfolding main_json_run [OF assms(1,2) that, of tabulate dumps]
    by (simp add: written_files_simps)
  have "written_files (main tabulate dumps args (w\<lparr>connect1 := Inr conn1', connect2 := Inr conn2'\<rparr>))
          = written_files (main tabulate dumps args w)" for conn1' conn2'
    using files [of w conn1 conn2] files [of "w\<lparr>connect1 := Inr conn1', connect2 := Inr conn2'\<rparr>" conn1' conn2']
      assms(3-5) by simp
  then show ?thesis
    using files [OF assms(3-5)] unfolding doc by blast
qed

text \<open>The run of the example command line: the passwords \<^verbatim>\<open>pass1\<close> and \<^verbatim>\<open>pass2\<close> are in the
  document that is written, whatever the serialiser and whatever server 1 answers.\<close>

theorem C10_json_output_witness:
  "\<forall>tabulate dumps conn1.
     written_files (main tabulate dumps (example_args Json) (example_world conn1)) =
     [(''azure_comparison.md'',
       dumps (JObject
         [(''server1'', JObject
             [(''name'', JString ''Server1-Fast''),
              (''host'', JString ''fast.example.org''),
              (''database'', JString ''mydb''),
              (''user'', JString ''admin''),
              (''password'', JString ''pass1''),
              (''port'', JInt 5432)]),
          (''server2'', JObject
             [(''name'', JString ''Server2-Slow''),
              (''host'', JString ''slow.example.org''),
              (''database'', JString ''mydb''),
              (''user'', JString ''admin''),
              (''password'', JString ''pass2''),
              (''port'', JInt 5432)]),
          (''report'', JString ''JSON format not yet implemented'')]))]"
proof (intro allI)
  fix tabulate dumps conn1
  have "output_format (example_args Json) = Json"
       "connect1 (example_world conn1) = Inr conn1"
       "connect2 (example_world conn1) = Inr version_only_connection"
       "write_error (example_world conn1) = None"
       "server1_pass (example_args Json) = Some ''pass1''"
       "server2_pass (example_args Json) = Some ''pass2''"
    by (simp_all add: example_args_def example_world_def)
  from C10_json_output_is_configuration_with_passwords
         [OF example_args_valid this, of tabulate dumps]
  show "written_files (main tabulate dumps (example_args Json) (example_world conn1)) =
     [(''azure_comparison.md'',
       dumps (JObject
         [(''server1'', JObject
             [(''name'', JString ''Server1-Fast''),
              (''host'', JString ''fast.example.org''),
              (''database'', JString ''mydb''),
              (''user'', JString ''admin''),
              (''password'', JString ''pass1''),
              (''port'', JInt 5432)]),
          (''server2'', JObject
             [(''name'', JString ''Server2-Slow''),
              (''host'', JString ''slow.example.org''),
              (''database'', JString ''mydb''),
              (''user'', JString ''admin''),
              (''password'', JString ''pass2''),
              (''port'', JInt 5432)]),
          (''report'', JString ''JSON format not yet implemented'')]))]"
    by (simp add: example_args_def arg_value_def)
qed

end
